theory Spec2Isabelle
  imports Main "HOL-Library.Word"
begin

section \<open>Data model of runtime/ExecutionBuilder.cpp\<close>

text \<open>
  The execution layer of the neural-networks runtime: the per-request
  \<open>ExecutionBuilder\<close>, its argument bindings, the step loop
  \<open>asyncStartComputePartitioned\<close> and the CPU fallback logic. Dimensions are
  \<open>uint32_t\<close>, durations \<open>uint64_t\<close>; both are machine words here. Vector
  indices are natural numbers: a \<open>std::vector\<close> of \<open>2 ^ 32\<close> or more entries is
  outside what this development covers.
\<close>

type_synonym u32 = "32 word"
type_synonym u64 = "64 word"

text \<open>
  The result codes of the public API that the file returns itself. Any other code comes
  from a collaborator (the plan, a device) and is carried as \<open>ANEURALNETWORKS_OTHER\<close>.
\<close>

datatype ResultCode =
    ANEURALNETWORKS_NO_ERROR
  | ANEURALNETWORKS_BAD_DATA
  | ANEURALNETWORKS_BAD_STATE
  | ANEURALNETWORKS_OUTPUT_INSUFFICIENT_SIZE
  | ANEURALNETWORKS_OTHER int

text \<open>\<open>enum class ErrorStatus\<close> of nnapi/Types.h.\<close>

datatype ErrorStatus =
    NONE
  | DEVICE_UNAVAILABLE
  | GENERAL_FAILURE
  | OUTPUT_INSUFFICIENT_SIZE
  | INVALID_ARGUMENT
  | MISSED_DEADLINE_TRANSIENT
  | MISSED_DEADLINE_PERSISTENT
  | RESOURCE_EXHAUSTED_TRANSIENT
  | RESOURCE_EXHAUSTED_PERSISTENT
  | DEAD_OBJECT

record OutputShape =
  dimensions :: "u32 list"
  isSufficient :: bool

record Timing =
  timeOnDevice :: u64
  timeInDriver :: u64

definition UINT64_MAX :: u64 where
  "UINT64_MAX = - 1"

definition kNoTiming :: Timing where
  "kNoTiming = \<lparr>timeOnDevice = UINT64_MAX, timeInDriver = UINT64_MAX\<rparr>"

text \<open>
  \<open>ModelArgumentInfo\<close>: one binding per model input or output. Its header is not among
  the sources; the fields are the ones ExecutionBuilder.cpp reads and writes
  (\<open>state\<close>, \<open>dimensions\<close>, \<open>isSufficient\<close>, \<open>buffer\<close>,
  \<open>locationAndLength\<close>), prefixed with \<open>arg\<close> to keep them apart from the fields
  of \<open>OutputShape\<close>.
\<close>

datatype ArgumentState = POINTER | MEMORY | HAS_NO_VALUE | UNSPECIFIED

record DataLocation =
  poolIndex :: u32
  offset :: u32
  len :: u32

record ModelArgumentInfo =
  argState :: ArgumentState
  argDimensions :: "u32 list"
  argIsSufficient :: bool
  argBuffer :: "nat option"
  argLocationAndLength :: DataLocation

record Operand =
  operandType :: int
  operandDimensions :: "u32 list"

text \<open>
  \<open>ANeuralNetworksOperandType\<close>, the optional type override of a bind call:
  \<open>dimensionCount\<close> is a field of its own beside the \<open>dimensions\<close> array.
\<close>

record ANeuralNetworksOperandType =
  newTypeCode :: int
  dimensionCount :: u32
  newTypeDimensions :: "u32 list"

record Memory =
  memoryId :: nat
  hidlName :: string
  memorySize :: nat

text \<open>What the file reads of the \<open>CompilationBuilder\<close> an execution is created from.\<close>

record CompilationBuilder =
  mExplicitDeviceList :: bool
  mDevices :: "nat list"
  mPartitioning :: u32

record ExecutionBuilder =
  mCompilation :: CompilationBuilder
  modelInputOperands :: "Operand list"
  modelOutputOperands :: "Operand list"
  mInputs :: "ModelArgumentInfo list"
  mOutputs :: "ModelArgumentInfo list"
  mMemories :: "Memory list"
  mMeasureTiming :: bool
  mTiming :: Timing
  mStarted :: bool
  mFinished :: bool

section \<open>Output-shape reconciliation\<close>

text \<open>
  \<open>isUpdatable(to, from)\<close>: an empty \<open>to\<close> accepts anything; otherwise the ranks
  must agree (\<open>NN_RET_CHECK_EQ\<close> returns false) and the loop returns false at the first
  position where \<open>to[i]\<close> is neither \<open>from[i]\<close> nor 0.
\<close>

function isUpdatable_loop :: "u32 list \<Rightarrow> u32 list \<Rightarrow> nat \<Rightarrow> bool" where
  "isUpdatable_loop to from i =
     (if i < length to
      then (if to ! i = from ! i \<or> to ! i = 0
            then isUpdatable_loop to from (Suc i)
            else False)
      else True)"
  by pat_completeness auto
termination
  by (relation "measure (\<lambda>(to, from, i). length to - i)") auto

declare isUpdatable_loop.simps [simp del]

definition isUpdatable :: "u32 list \<Rightarrow> u32 list \<Rightarrow> bool" where
  "isUpdatable to from =
     (if length to = 0 then True
      else if length to \<noteq> length from then False
      else isUpdatable_loop to from 0)"

text \<open>
  \<open>ExecutionBuilder::updateOutputShapes\<close>: a first loop checks every output, a second
  loop stores the reported dimensions and sufficiency flags.
\<close>

function updateOutputShapes_check :: "ModelArgumentInfo list \<Rightarrow> OutputShape list \<Rightarrow> nat \<Rightarrow> bool" where
  "updateOutputShapes_check outs outputShapes i =
     (if i < length outputShapes
      then (if isUpdatable (argDimensions (outs ! i)) (dimensions (outputShapes ! i))
            then updateOutputShapes_check outs outputShapes (Suc i)
            else False)
      else True)"
  by pat_completeness auto
termination
  by (relation "measure (\<lambda>(outs, outputShapes, i). length outputShapes - i)") auto

declare updateOutputShapes_check.simps [simp del]

function updateOutputShapes_store ::
  "ModelArgumentInfo list \<Rightarrow> OutputShape list \<Rightarrow> nat \<Rightarrow> ModelArgumentInfo list" where
  "updateOutputShapes_store outs outputShapes i =
     (if i < length outputShapes
      then updateOutputShapes_store
             (outs[i := (outs ! i)\<lparr>argDimensions := dimensions (outputShapes ! i),
                                   argIsSufficient := isSufficient (outputShapes ! i)\<rparr>])
             outputShapes (Suc i)
      else outs)"
  by pat_completeness auto
termination
  by (relation "measure (\<lambda>(outs, outputShapes, i). length outputShapes - i)") auto

declare updateOutputShapes_store.simps [simp del]

definition updateOutputShapes :: "OutputShape list \<Rightarrow> ExecutionBuilder \<Rightarrow> bool \<times> ExecutionBuilder" where
  "updateOutputShapes outputShapes s =
     (if length outputShapes = 0 then (True, s)
      else if length outputShapes \<noteq> length (mOutputs s) then (False, s)
      else if \<not> updateOutputShapes_check (mOutputs s) outputShapes 0 then (False, s)
      else (True, s\<lparr>mOutputs := updateOutputShapes_store (mOutputs s) outputShapes 0\<rparr>))"

text \<open>What the second loop stores in one binding.\<close>

definition storedShape :: "ModelArgumentInfo \<Rightarrow> OutputShape \<Rightarrow> ModelArgumentInfo" where
  "storedShape output shape =
     output\<lparr>argDimensions := dimensions shape, argIsSufficient := isSufficient shape\<rparr>"

section \<open>Binding arguments\<close>

text \<open>
  The collaborators of the bind calls that live in other files (Utils, TypeManager,
  ModelArgumentInfo, Memory) are parameters: a record of the functions the bind calls
  invoke. \<open>validateOperandType\<close> receives the operand type whose extension
  information was looked up (\<open>None\<close> for the null \<open>info\<close> pointer).
\<close>

record TypeOracle =
  isExtensionOperandType :: "int \<Rightarrow> bool"
  getExtensionOperandTypeInfo :: "int \<Rightarrow> bool"
  validateOperandType :: "ANeuralNetworksOperandType \<Rightarrow> int option \<Rightarrow> bool \<Rightarrow> ResultCode"
  isTensorType :: "int \<Rightarrow> bool"
  tensorHasUnspecifiedDimensions :: "Operand \<Rightarrow> bool"
  setFromPointer ::
    "Operand \<Rightarrow> ANeuralNetworksOperandType option \<Rightarrow> nat option \<Rightarrow> u32 \<Rightarrow>
       ModelArgumentInfo \<Rightarrow> ResultCode \<times> ModelArgumentInfo"
  setFromMemory ::
    "Operand \<Rightarrow> ANeuralNetworksOperandType option \<Rightarrow> u32 \<Rightarrow> nat \<Rightarrow> nat \<Rightarrow>
       ModelArgumentInfo \<Rightarrow> ResultCode \<times> ModelArgumentInfo"
  validateSize :: "Memory \<Rightarrow> nat \<Rightarrow> nat \<Rightarrow> bool"

function checkDimensionInfo_loop :: "Operand \<Rightarrow> ANeuralNetworksOperandType \<Rightarrow> nat \<Rightarrow> bool" where
  "checkDimensionInfo_loop operand newType i =
     (if i < unat (dimensionCount newType)
      then (if operandDimensions operand ! i \<noteq> newTypeDimensions newType ! i
               \<and> operandDimensions operand ! i \<noteq> 0
            then False
            else checkDimensionInfo_loop operand newType (Suc i))
      else True)"
  by pat_completeness auto
termination
  by (relation "measure (\<lambda>(operand, newType, i). unat (dimensionCount newType) - i)") auto

declare checkDimensionInfo_loop.simps [simp del]

definition checkDimensionInfo ::
  "TypeOracle \<Rightarrow> Operand \<Rightarrow> ANeuralNetworksOperandType option \<Rightarrow> bool \<Rightarrow> bool" where
  "checkDimensionInfo tc operand newType allowUnspecified =
     (case newType of
        Some t \<Rightarrow>
          (if isExtensionOperandType tc (operandType operand)
               \<and> \<not> getExtensionOperandTypeInfo tc (operandType operand)
           then False
           else if validateOperandType tc t
                     (if isExtensionOperandType tc (operandType operand)
                      then Some (operandType operand) else None)
                     allowUnspecified \<noteq> ANEURALNETWORKS_NO_ERROR
           then False
           else if length (operandDimensions operand) = 0 then True
           else if length (operandDimensions operand) \<noteq> unat (dimensionCount t) then False
           else checkDimensionInfo_loop operand t 0)
      | None \<Rightarrow>
          (if \<not> allowUnspecified \<and> isTensorType tc (operandType operand)
               \<and> tensorHasUnspecifiedDimensions tc operand
           then False
           else True))"

text \<open>
  Modelled from the spec: \<open>MemoryTracker::add\<close> (Memory.cpp is not among the
  sources). The pool table is an ordered, de-duplicated collection; \<open>add\<close> returns a
  stable index, the one a later lookup of the same pool finds again.
\<close>

fun MemoryTracker_find :: "Memory list \<Rightarrow> Memory \<Rightarrow> nat \<Rightarrow> nat option" where
  "MemoryTracker_find [] memory i = None"
| "MemoryTracker_find (m # ms) memory i =
     (if m = memory then Some i else MemoryTracker_find ms memory (Suc i))"

definition MemoryTracker_add :: "Memory list \<Rightarrow> Memory \<Rightarrow> u32 \<times> Memory list" where
  "MemoryTracker_add memories memory =
     (case MemoryTracker_find memories memory 0 of
        Some i \<Rightarrow> (of_nat i, memories)
      | None \<Rightarrow> (of_nat (length memories), memories @ [memory]))"

text \<open>
  Modelled from the spec: the constructor's initial bindings (ModelArgumentInfo.h is not
  among the sources). Every binding is created with kind \<open>Unspecified\<close>; there is one
  binding per declared input and per declared output.
\<close>

definition unspecifiedArgument :: ModelArgumentInfo where
  "unspecifiedArgument =
     \<lparr>argState = UNSPECIFIED, argDimensions = [], argIsSufficient = True, argBuffer = None,
      argLocationAndLength = \<lparr>poolIndex = 0, offset = 0, len = 0\<rparr>\<rparr>"

definition newExecutionBuilder ::
  "CompilationBuilder \<Rightarrow> Operand list \<Rightarrow> Operand list \<Rightarrow> ExecutionBuilder" where
  "newExecutionBuilder compilation inputOperands outputOperands =
     \<lparr>mCompilation = compilation,
      modelInputOperands = inputOperands,
      modelOutputOperands = outputOperands,
      mInputs = replicate (length inputOperands) unspecifiedArgument,
      mOutputs = replicate (length outputOperands) unspecifiedArgument,
      mMemories = [],
      mMeasureTiming = False,
      mTiming = kNoTiming,
      mStarted = False,
      mFinished = False\<rparr>"

text \<open>
  The four bind calls. Each returns the result code and the execution after the call.
  \<open>count\<close> is the \<open>static_cast<uint32_t>\<close> of the vector's size, and the index is
  compared with it as a \<open>uint32_t\<close>. A pointer is \<open>None\<close> when null.
\<close>

definition setInput ::
  "TypeOracle \<Rightarrow> u32 \<Rightarrow> ANeuralNetworksOperandType option \<Rightarrow> nat option \<Rightarrow> nat \<Rightarrow>
     ExecutionBuilder \<Rightarrow> ResultCode \<times> ExecutionBuilder" where
  "setInput tc index type buffer byteLength s =
     (if mStarted s then (ANEURALNETWORKS_BAD_STATE, s)
      else if index \<ge> (of_nat (length (mInputs s)) :: u32) then (ANEURALNETWORKS_BAD_DATA, s)
      else if \<not> checkDimensionInfo tc (modelInputOperands s ! unat index) type (buffer = None)
      then (ANEURALNETWORKS_BAD_DATA, s)
      else if byteLength > 0xFFFFFFFF then (ANEURALNETWORKS_BAD_DATA, s)
      else (case setFromPointer tc (modelInputOperands s ! unat index) type buffer
                    (of_nat byteLength) (mInputs s ! unat index) of
              (n, info) \<Rightarrow> (n, s\<lparr>mInputs := (mInputs s)[unat index := info]\<rparr>)))"

definition setInputFromMemory ::
  "TypeOracle \<Rightarrow> u32 \<Rightarrow> ANeuralNetworksOperandType option \<Rightarrow> Memory \<Rightarrow> nat \<Rightarrow> nat \<Rightarrow>
     ExecutionBuilder \<Rightarrow> ResultCode \<times> ExecutionBuilder" where
  "setInputFromMemory tc index type memory byteOffset byteLength s =
     (if mStarted s then (ANEURALNETWORKS_BAD_STATE, s)
      else if index \<ge> (of_nat (length (mInputs s)) :: u32) then (ANEURALNETWORKS_BAD_DATA, s)
      else if \<not> checkDimensionInfo tc (modelInputOperands s ! unat index) type False
      then (ANEURALNETWORKS_BAD_DATA, s)
      else if hidlName memory = ''hardware_buffer'' \<and> (byteOffset \<noteq> 0 \<or> byteLength \<noteq> 0)
      then (ANEURALNETWORKS_BAD_DATA, s)
      else if \<not> validateSize tc memory byteOffset byteLength then (ANEURALNETWORKS_BAD_DATA, s)
      else (case MemoryTracker_add (mMemories s) memory of
              (pool, memories) \<Rightarrow>
                (case setFromMemory tc (modelInputOperands s ! unat index) type pool
                        byteOffset byteLength (mInputs s ! unat index) of
                   (n, info) \<Rightarrow>
                     (n, s\<lparr>mMemories := memories,
                           mInputs := (mInputs s)[unat index := info]\<rparr>))))"

definition setOutput ::
  "TypeOracle \<Rightarrow> u32 \<Rightarrow> ANeuralNetworksOperandType option \<Rightarrow> nat option \<Rightarrow> nat \<Rightarrow>
     ExecutionBuilder \<Rightarrow> ResultCode \<times> ExecutionBuilder" where
  "setOutput tc index type buffer byteLength s =
     (if mStarted s then (ANEURALNETWORKS_BAD_STATE, s)
      else if index \<ge> (of_nat (length (mOutputs s)) :: u32) then (ANEURALNETWORKS_BAD_DATA, s)
      else if \<not> checkDimensionInfo tc (modelOutputOperands s ! unat index) type True
      then (ANEURALNETWORKS_BAD_DATA, s)
      else if byteLength > 0xFFFFFFFF then (ANEURALNETWORKS_BAD_DATA, s)
      else (case setFromPointer tc (modelOutputOperands s ! unat index) type buffer
                    (of_nat byteLength) (mOutputs s ! unat index) of
              (n, info) \<Rightarrow> (n, s\<lparr>mOutputs := (mOutputs s)[unat index := info]\<rparr>)))"

definition setOutputFromMemory ::
  "TypeOracle \<Rightarrow> u32 \<Rightarrow> ANeuralNetworksOperandType option \<Rightarrow> Memory \<Rightarrow> nat \<Rightarrow> nat \<Rightarrow>
     ExecutionBuilder \<Rightarrow> ResultCode \<times> ExecutionBuilder" where
  "setOutputFromMemory tc index type memory byteOffset byteLength s =
     (if mStarted s then (ANEURALNETWORKS_BAD_STATE, s)
      else if index \<ge> (of_nat (length (mOutputs s)) :: u32) then (ANEURALNETWORKS_BAD_DATA, s)
      else if \<not> checkDimensionInfo tc (modelOutputOperands s ! unat index) type True
      then (ANEURALNETWORKS_BAD_DATA, s)
      else if hidlName memory = ''hardware_buffer'' \<and> (byteOffset \<noteq> 0 \<or> byteLength \<noteq> 0)
      then (ANEURALNETWORKS_BAD_DATA, s)
      else if \<not> validateSize tc memory byteOffset byteLength then (ANEURALNETWORKS_BAD_DATA, s)
      else (case MemoryTracker_add (mMemories s) memory of
              (pool, memories) \<Rightarrow>
                (case setFromMemory tc (modelOutputOperands s ! unat index) type pool
                        byteOffset byteLength (mOutputs s ! unat index) of
                   (n, info) \<Rightarrow>
                     (n, s\<lparr>mMemories := memories,
                           mOutputs := (mOutputs s)[unat index := info]\<rparr>))))"

section \<open>Timing and result queries\<close>

definition setMeasureTiming :: "bool \<Rightarrow> ExecutionBuilder \<Rightarrow> ResultCode \<times> ExecutionBuilder" where
  "setMeasureTiming measureFlag s =
     (if \<not> mExplicitDeviceList (mCompilation s) \<or> length (mDevices (mCompilation s)) \<noteq> 1
      then (ANEURALNETWORKS_BAD_DATA, s)
      else if mStarted s then (ANEURALNETWORKS_BAD_STATE, s)
      else (ANEURALNETWORKS_NO_ERROR, s\<lparr>mMeasureTiming := measureFlag\<rparr>))"

text \<open>
  \<open>getDuration\<close> takes the duration code and the current content of \<open>*duration\<close>, and
  returns the result code with the new content. The two duration codes are constants of
  NeuralNetworks.h; any other \<open>int32_t\<close> reaches \<open>CHECK(!"unexpected")\<close>, which
  aborts the process: the result is \<open>None\<close>.
\<close>

datatype DurationCode =
    ANEURALNETWORKS_DURATION_ON_HARDWARE
  | ANEURALNETWORKS_DURATION_IN_DRIVER
  | DurationCodeOther int

definition kNanoPerMicro :: u64 where
  "kNanoPerMicro = 1000"

definition getDuration ::
  "DurationCode \<Rightarrow> u64 \<Rightarrow> ExecutionBuilder \<Rightarrow> (ResultCode \<times> u64) option" where
  "getDuration durationCode duration s =
     (if \<not> mFinished s then Some (ANEURALNETWORKS_BAD_STATE, duration)
      else if \<not> mMeasureTiming s then Some (ANEURALNETWORKS_BAD_STATE, UINT64_MAX)
      else (case (case durationCode of
                    ANEURALNETWORKS_DURATION_ON_HARDWARE \<Rightarrow> Some (timeOnDevice (mTiming s))
                  | ANEURALNETWORKS_DURATION_IN_DRIVER \<Rightarrow> Some (timeInDriver (mTiming s))
                  | DurationCodeOther c \<Rightarrow> None) of
              None \<Rightarrow> None
            | Some microDuration \<Rightarrow>
                Some (ANEURALNETWORKS_NO_ERROR,
                      if microDuration = UINT64_MAX then UINT64_MAX
                      else kNanoPerMicro * microDuration)))"

text \<open>
  \<open>getOutputOperandDimensions\<close> takes the caller's buffer as the list of the cells
  that start at the pointer; \<open>std::copy\<close> overwrites the first cells with the
  dimensions. \<open>getOutputOperandRank\<close> takes the current content of \<open>*rank\<close>.
\<close>

definition std_copy :: "u32 list \<Rightarrow> u32 list \<Rightarrow> u32 list" where
  "std_copy dims buffer = dims @ drop (length dims) buffer"

definition getOutputOperandDimensions ::
  "u32 \<Rightarrow> u32 list \<Rightarrow> ExecutionBuilder \<Rightarrow> ResultCode \<times> u32 list" where
  "getOutputOperandDimensions index out s =
     (if \<not> mFinished s then (ANEURALNETWORKS_BAD_STATE, out)
      else if index \<ge> (of_nat (length (mOutputs s)) :: u32)
      then (ANEURALNETWORKS_BAD_DATA, out)
      else (let dims = argDimensions (mOutputs s ! unat index) in
            if dims = [] then (ANEURALNETWORKS_BAD_DATA, out)
            else (if argIsSufficient (mOutputs s ! unat index)
                  then ANEURALNETWORKS_NO_ERROR
                  else ANEURALNETWORKS_OUTPUT_INSUFFICIENT_SIZE,
                  std_copy dims out)))"

definition getOutputOperandRank ::
  "u32 \<Rightarrow> u32 \<Rightarrow> ExecutionBuilder \<Rightarrow> ResultCode \<times> u32" where
  "getOutputOperandRank index rank s =
     (if \<not> mFinished s then (ANEURALNETWORKS_BAD_STATE, rank)
      else if index \<ge> (of_nat (length (mOutputs s)) :: u32)
      then (ANEURALNETWORKS_BAD_DATA, rank)
      else (if argIsSufficient (mOutputs s ! unat index)
            then ANEURALNETWORKS_NO_ERROR
            else ANEURALNETWORKS_OUTPUT_INSUFFICIENT_SIZE,
            of_nat (length (argDimensions (mOutputs s ! unat index)))))"

section \<open>Step executors\<close>

text \<open>
  A device answers \<open>execute\<close> with a result code, the output shapes and the timing.
  Devices and prepared models are external: a step executor carries the answer its
  prepared model gives (\<open>None\<close> for a null \<open>mPreparedModel\<close>) and the answer of
  the CPU device's \<open>prepareModel\<close> for its model, a result code with the prepared
  model. \<open>mExecutionStep\<close> is the step's
  \<open>getOutputIndexSubModelToFromModel\<close>, \<open>None\<close> when the pointer is null.
\<close>

datatype Device = CpuDevice | OtherDevice nat

type_synonym ExecuteResult = "ResultCode \<times> OutputShape list \<times> Timing"

record StepExecutor =
  mExecutionStep :: "u32 list option"
  mDevice :: Device
  mPreparedModel :: "ExecuteResult option"
  cpuPrepareModel :: "ResultCode \<times> ExecuteResult option"

record ExecutionCallback =
  getStatus :: ErrorStatus
  getOutputShapes :: "OutputShape list"
  getTiming :: Timing

text \<open>
  The functions of other files that the step loop and \<open>compute\<close> call.
  \<open>callbackStatus\<close> is the status a callback reports after it was notified with a
  status and its on-finish hook returned another; \<open>wholeModelCpuPrepare\<close> is the
  answer of the CPU device when the whole model is prepared on it.
\<close>

record Runtime =
  convertResultCodeToErrorStatus :: "ResultCode \<Rightarrow> ErrorStatus"
  convertErrorStatusToResultCode :: "ErrorStatus \<Rightarrow> ResultCode"
  partitioningAllowsFallback :: "u32 \<Rightarrow> bool"
  syncExecRuntime :: bool
  callbackStatus :: "ErrorStatus \<Rightarrow> ErrorStatus \<Rightarrow> ErrorStatus"
  wholeModelCpuPrepare :: "ResultCode \<times> ExecuteResult option"

text \<open>
  What the step loop does to the outside, in order: timing reported to the execution,
  the two fallback entry points, the notification of the completion callback, and a
  failed \<open>CHECK\<close>, which aborts the process.
\<close>

datatype Event =
    ReportTiming Timing
  | CpuFallbackPartial
  | CpuFallbackFull
  | Notify ErrorStatus "OutputShape list" Timing
  | CheckFailure

datatype StartResult =
    StartAborted
  | StartError ResultCode
  | Started ExecutionCallback

definition getCpuDevice :: Device where
  "getCpuDevice = CpuDevice"

definition isCpu :: "StepExecutor \<Rightarrow> bool" where
  "isCpu executor = (mDevice executor = getCpuDevice)"

text \<open>
  \<open>StepExecutor::updateOutputShapes(from, to)\<close> returns the flag and the table
  \<open>to\<close> as it stands then: the loops store entry by entry, so a failure at a later
  entry leaves the earlier entries stored.
\<close>

function updateOutputShapes_mapped ::
  "u32 list \<Rightarrow> OutputShape list \<Rightarrow> OutputShape list \<Rightarrow> nat \<Rightarrow> bool \<times> OutputShape list" where
  "updateOutputShapes_mapped indexMapping from to i =
     (if i < length indexMapping
      then (let toIndex = indexMapping ! i in
            if \<not> length to > unat toIndex then (False, to)
            else if \<not> isUpdatable (dimensions (to ! unat toIndex)) (dimensions (from ! i))
            then (False, to)
            else updateOutputShapes_mapped indexMapping from (to[unat toIndex := from ! i]) (Suc i))
      else (True, to))"
  by pat_completeness auto
termination
  by (relation "measure (\<lambda>(indexMapping, from, to, i). length indexMapping - i)") auto

declare updateOutputShapes_mapped.simps [simp del]

function updateOutputShapes_direct ::
  "OutputShape list \<Rightarrow> OutputShape list \<Rightarrow> nat \<Rightarrow> bool \<times> OutputShape list" where
  "updateOutputShapes_direct from to i =
     (if i < length from
      then (if \<not> isUpdatable (dimensions (to ! i)) (dimensions (from ! i))
            then (False, to)
            else updateOutputShapes_direct from (to[i := from ! i]) (Suc i))
      else (True, to))"
  by pat_completeness auto
termination
  by (relation "measure (\<lambda>(from, to, i). length from - i)") auto

declare updateOutputShapes_direct.simps [simp del]

definition StepExecutor_updateOutputShapes ::
  "StepExecutor \<Rightarrow> OutputShape list \<Rightarrow> OutputShape list \<Rightarrow> bool \<times> OutputShape list" where
  "StepExecutor_updateOutputShapes executor from to =
     (if length from = 0 then (True, to)
      else (case mExecutionStep executor of
              Some indexMapping \<Rightarrow>
                (if \<not> length indexMapping \<le> length from then (False, to)
                 else updateOutputShapes_mapped indexMapping from to 0)
            | None \<Rightarrow>
                (if length from \<noteq> length to then (False, to)
                 else updateOutputShapes_direct from to 0)))"

text \<open>
  The status the step loop and \<open>cpuFallbackPartial\<close> classify: the status of the
  callback, or \<open>GENERAL_FAILURE\<close> when \<open>updateOutputShapes\<close> returned false.
\<close>

definition reconciledStatus :: "StepExecutor \<Rightarrow> ExecutionCallback \<Rightarrow> OutputShape list \<Rightarrow> ErrorStatus" where
  "reconciledStatus executor callback outputShapes =
     (if fst (StepExecutor_updateOutputShapes executor (getOutputShapes callback) outputShapes)
      then getStatus callback else GENERAL_FAILURE)"

text \<open>
  \<open>startCompute\<close> returns the events and either the error code (the source's
  \<open>n\<close>, which is not \<open>NO_ERROR\<close> then) or the notified callback.
\<close>

definition startCompute :: "Runtime \<Rightarrow> StepExecutor \<Rightarrow> Event list \<times> StartResult" where
  "startCompute rt executor =
     (case mPreparedModel executor of
        None \<Rightarrow> ([CheckFailure], StartAborted)
      | Some (n, outputShapes, timing) \<Rightarrow>
          (if n \<noteq> ANEURALNETWORKS_NO_ERROR \<and> n \<noteq> ANEURALNETWORKS_OUTPUT_INSUFFICIENT_SIZE
           then ([ReportTiming timing], StartError n)
           else ([ReportTiming timing],
                 Started \<lparr>getStatus = convertResultCodeToErrorStatus rt n,
                          getOutputShapes = outputShapes,
                          getTiming = timing\<rparr>)))"

definition startComputeOnCpuFallback :: "Runtime \<Rightarrow> StepExecutor \<Rightarrow> Event list \<times> StartResult" where
  "startComputeOnCpuFallback rt executor =
     (case cpuPrepareModel executor of
        (n, preparedModel) \<Rightarrow>
          (if n \<noteq> ANEURALNETWORKS_NO_ERROR then ([], StartError n)
           else startCompute rt (executor\<lparr>mDevice := getCpuDevice,
                                          mPreparedModel := preparedModel\<rparr>)))"

section \<open>The step loop and the CPU fallback\<close>

text \<open>
  The plan is external. \<open>planScript\<close> lists the answers of \<open>plan->next\<close> in the
  order the loop asks: the result code and the executor (\<open>None\<close> when the plan has no
  step left), each executor with the answer \<open>plan->fallback\<close> gives for its step. A
  script that is used up means that the plan has no step left.
\<close>

type_synonym FallbackAnswer = "ResultCode \<times> StepExecutor"

type_synonym NextAnswer = "ResultCode \<times> (StepExecutor \<times> FallbackAnswer) option"

record ExecutionPlan =
  isSimple :: bool
  isSimpleCpu :: bool
  planScript :: "NextAnswer list"

definition cpuFallbackFull :: "Runtime \<Rightarrow> Event list" where
  "cpuFallbackFull rt =
     (case startComputeOnCpuFallback rt
             \<lparr>mExecutionStep = None, mDevice = getCpuDevice, mPreparedModel = None,
              cpuPrepareModel = wholeModelCpuPrepare rt\<rparr> of
        (events, StartAborted) \<Rightarrow> CpuFallbackFull # events
      | (events, StartError n) \<Rightarrow>
          CpuFallbackFull # events @ [Notify (convertResultCodeToErrorStatus rt n) [] kNoTiming]
      | (events, Started fallbackCallback) \<Rightarrow>
          CpuFallbackFull # events @
            [Notify (getStatus fallbackCallback) (getOutputShapes fallbackCallback)
                    (getTiming fallbackCallback)])"

text \<open>
  \<open>cpuFallbackPartial\<close> returns the events, the flag (true: the step ran on the CPU
  and the loop goes on) and the shape table.
\<close>

definition cpuFallbackPartial ::
  "Runtime \<Rightarrow> ExecutionPlan \<Rightarrow> FallbackAnswer \<Rightarrow> OutputShape list \<Rightarrow>
     Event list \<times> bool \<times> OutputShape list" where
  "cpuFallbackPartial rt plan fallback outputShapes =
     (case fallback of
        (n, executor) \<Rightarrow>
          (if n \<noteq> ANEURALNETWORKS_NO_ERROR \<or> isCpu executor
           then (CpuFallbackPartial # cpuFallbackFull rt, False, outputShapes)
           else (case startComputeOnCpuFallback rt executor of
                   (events, StartAborted) \<Rightarrow> (CpuFallbackPartial # events, False, outputShapes)
                 | (events, StartError m) \<Rightarrow>
                     (CpuFallbackPartial # events @ cpuFallbackFull rt, False, outputShapes)
                 | (events, Started fallbackCallback) \<Rightarrow>
                     (case StepExecutor_updateOutputShapes executor
                             (getOutputShapes fallbackCallback) outputShapes of
                        (ok, outputShapes') \<Rightarrow>
                          (let status = (if ok then getStatus fallbackCallback
                                         else GENERAL_FAILURE) in
                           if status \<noteq> NONE
                           then (if isSimple plan \<or> status = OUTPUT_INSUFFICIENT_SIZE
                                 then (CpuFallbackPartial # events @
                                         [Notify status outputShapes' kNoTiming],
                                       False, outputShapes')
                                 else (CpuFallbackPartial # events @ cpuFallbackFull rt,
                                       False, outputShapes'))
                           else (CpuFallbackPartial # events, True, outputShapes'))))))"

text \<open>
  The \<open>while (true)\<close> loop of \<open>asyncStartComputePartitioned\<close>, one answer of the
  plan per iteration, with the loop's variables \<open>outputShapes\<close> and \<open>timing\<close>.
\<close>

fun stepLoop ::
  "Runtime \<Rightarrow> ExecutionPlan \<Rightarrow> bool \<Rightarrow> NextAnswer list \<Rightarrow> OutputShape list \<Rightarrow> Timing \<Rightarrow>
     Event list" where
  "stepLoop rt plan allowFallback [] outputShapes timing =
     [Notify NONE outputShapes timing]"
| "stepLoop rt plan allowFallback ((n, answer) # rest) outputShapes timing =
     (if n \<noteq> ANEURALNETWORKS_NO_ERROR
      then (if allowFallback then cpuFallbackFull rt
            else [Notify (convertResultCodeToErrorStatus rt n) [] kNoTiming])
      else (case answer of
              None \<Rightarrow> [Notify NONE outputShapes timing]
            | Some (executor, fallback) \<Rightarrow>
                (case startCompute rt executor of
                   (events, StartAborted) \<Rightarrow> events
                 | (events, StartError m) \<Rightarrow>
                     (if allowFallback
                      then (case cpuFallbackPartial rt plan fallback outputShapes of
                              (events', continue, outputShapes') \<Rightarrow>
                                (if continue
                                 then events @ events' @
                                        stepLoop rt plan allowFallback rest outputShapes' timing
                                 else events @ events'))
                      else events @ [Notify (convertResultCodeToErrorStatus rt m) [] kNoTiming])
                 | (events, Started stepCallback) \<Rightarrow>
                     (case StepExecutor_updateOutputShapes executor
                             (getOutputShapes stepCallback) outputShapes of
                        (ok, outputShapes') \<Rightarrow>
                          (let status = (if ok then getStatus stepCallback
                                         else GENERAL_FAILURE) in
                           if status = NONE
                           then events @ stepLoop rt plan allowFallback rest outputShapes'
                                           (getTiming stepCallback)
                           else if allowFallback \<and> status \<noteq> OUTPUT_INSUFFICIENT_SIZE
                           then (case cpuFallbackPartial rt plan fallback outputShapes' of
                                   (events', continue, outputShapes'') \<Rightarrow>
                                     (if continue
                                      then events @ events' @
                                             stepLoop rt plan allowFallback rest outputShapes''
                                               timing
                                      else events @ events'))
                           else if status = OUTPUT_INSUFFICIENT_SIZE
                           then events @ [Notify status outputShapes' kNoTiming]
                           else events @ [Notify status [] kNoTiming])))))"

definition initializeOutputShapes :: "ExecutionBuilder \<Rightarrow> OutputShape list" where
  "initializeOutputShapes s =
     map (\<lambda>output. \<lparr>dimensions = argDimensions output, isSufficient = True\<rparr>) (mOutputs s)"

definition asyncStartComputePartitioned ::
  "Runtime \<Rightarrow> ExecutionBuilder \<Rightarrow> ExecutionPlan \<Rightarrow> bool \<Rightarrow> Event list" where
  "asyncStartComputePartitioned rt executionBuilder plan allowFallback =
     stepLoop rt plan (allowFallback \<and> \<not> isSimpleCpu plan) (planScript plan)
       (initializeOutputShapes executionBuilder) kNoTiming"

section \<open>compute\<close>

text \<open>
  \<open>ExecutionBuilder::finish\<close> is the on-finish hook of the completion callback.
  \<open>CHECK(!mFinished)\<close> aborts the process when it runs twice: the result is
  \<open>None\<close>.
\<close>

definition finish :: "OutputShape list \<Rightarrow> ExecutionBuilder \<Rightarrow> (ErrorStatus \<times> ExecutionBuilder) option" where
  "finish outputShapes s =
     (if mFinished s then None
      else (case updateOutputShapes outputShapes (s\<lparr>mFinished := True\<rparr>) of
              (ok, s') \<Rightarrow> Some (if ok then NONE else GENERAL_FAILURE, s')))"

text \<open>
  Modelled from the spec: \<open>ExecutionBuilder::reportTiming\<close> (ExecutionBuilder.h is
  not among the sources). Starting a step forwards the timing to the parent execution.
\<close>

definition reportTiming :: "Timing \<Rightarrow> ExecutionBuilder \<Rightarrow> ExecutionBuilder" where
  "reportTiming timing s = s\<lparr>mTiming := timing\<rparr>"

text \<open>
  The events of the step loop applied to the execution: the reported timings, and the
  notification, which runs the on-finish hook and fills the callback. The result is
  \<open>None\<close> when the process aborts.
\<close>

fun deliver ::
  "Runtime \<Rightarrow> Event list \<Rightarrow> ExecutionBuilder \<Rightarrow> ExecutionCallback option \<Rightarrow>
     (ExecutionBuilder \<times> ExecutionCallback option) option" where
  "deliver rt [] s callback = Some (s, callback)"
| "deliver rt (ReportTiming timing # events) s callback =
     deliver rt events (reportTiming timing s) callback"
| "deliver rt (CpuFallbackPartial # events) s callback = deliver rt events s callback"
| "deliver rt (CpuFallbackFull # events) s callback = deliver rt events s callback"
| "deliver rt (Notify status outputShapes timing # events) s callback =
     (case finish outputShapes s of
        None \<Rightarrow> None
      | Some (status', s') \<Rightarrow>
          deliver rt events s'
            (Some \<lparr>getStatus = callbackStatus rt status status',
                   getOutputShapes = outputShapes,
                   getTiming = timing\<rparr>))"
| "deliver rt (CheckFailure # events) s callback = None"

text \<open>
  \<open>compute\<close> is called in one of three ways: synchronously, synchronously with a
  burst, or asynchronously (\<open>CHECK\<close> excludes a callback together with a burst). The
  result is the code and the execution when the call returns. In the threaded
  asynchronous case the step loop runs on a thread of its own, \<open>computeThread\<close>, and
  the call returns with the execution started; a synchronous call whose callback is
  never notified does not return (\<open>None\<close>).
\<close>

datatype ComputeMode = Synchronous | BurstCompute | Asynchronous

definition computeThread ::
  "Runtime \<Rightarrow> ExecutionPlan \<Rightarrow> ExecutionBuilder \<Rightarrow> (ExecutionBuilder \<times> ExecutionCallback option) option" where
  "computeThread rt plan s =
     deliver rt
       (asyncStartComputePartitioned rt s plan
          (partitioningAllowsFallback rt (mPartitioning (mCompilation s))))
       s None"

definition compute ::
  "Runtime \<Rightarrow> ExecutionPlan \<Rightarrow> ComputeMode \<Rightarrow> ExecutionBuilder \<Rightarrow> (ResultCode \<times> ExecutionBuilder) option" where
  "compute rt plan mode s =
     (if mStarted s then Some (ANEURALNETWORKS_BAD_STATE, s)
      else if list_ex (\<lambda>p. argState p = UNSPECIFIED) (mInputs s)
      then Some (ANEURALNETWORKS_BAD_DATA, s)
      else if list_ex (\<lambda>p. argState p = UNSPECIFIED) (mOutputs s)
      then Some (ANEURALNETWORKS_BAD_DATA, s)
      else (if mode \<noteq> Asynchronous
            then (case computeThread rt plan (s\<lparr>mStarted := True\<rparr>) of
                    None \<Rightarrow> None
                  | Some (s', None) \<Rightarrow> None
                  | Some (s', Some callback) \<Rightarrow>
                      Some (convertErrorStatusToResultCode rt (getStatus callback),
                            if mMeasureTiming s' then s'\<lparr>mTiming := getTiming callback\<rparr>
                            else s'))
            else if syncExecRuntime rt
            then (case computeThread rt plan (s\<lparr>mStarted := True\<rparr>) of
                    None \<Rightarrow> None
                  | Some (s', callback) \<Rightarrow> Some (ANEURALNETWORKS_NO_ERROR, s'))
            else Some (ANEURALNETWORKS_NO_ERROR, s\<lparr>mStarted := True\<rparr>)))"

section \<open>Example executions\<close>

text \<open>
  Concrete executions on which the theorems are exercised. The model has one input of
  shape 2x3, a first output whose second dimension is unspecified and a second, scalar
  output. \<open>exampleExecution\<close> is compiled for two devices with fallback allowed and
  has every slot bound; \<open>exampleTimed\<close> is a finished execution compiled for one
  explicitly chosen device, with timing measured.
\<close>

definition exampleCompilation :: CompilationBuilder where
  "exampleCompilation = \<lparr>mExplicitDeviceList = False, mDevices = [0, 1], mPartitioning = 1\<rparr>"

definition exampleSingleDevice :: CompilationBuilder where
  "exampleSingleDevice = \<lparr>mExplicitDeviceList = True, mDevices = [0], mPartitioning = 0\<rparr>"

definition exampleBinding :: "u32 list \<Rightarrow> ModelArgumentInfo" where
  "exampleBinding dims =
     \<lparr>argState = POINTER, argDimensions = dims, argIsSufficient = True, argBuffer = Some 4096,
      argLocationAndLength = \<lparr>poolIndex = 0, offset = 0, len = 24\<rparr>\<rparr>"

definition exampleExecution :: ExecutionBuilder where
  "exampleExecution =
     \<lparr>mCompilation = exampleCompilation,
      modelInputOperands = [\<lparr>operandType = 0, operandDimensions = [2, 3]\<rparr>],
      modelOutputOperands = [\<lparr>operandType = 0, operandDimensions = [2, 0]\<rparr>,
                            \<lparr>operandType = 1, operandDimensions = []\<rparr>],
      mInputs = [exampleBinding [2, 3]],
      mOutputs = [exampleBinding [2, 0], exampleBinding []],
      mMemories = [],
      mMeasureTiming = False,
      mTiming = kNoTiming,
      mStarted = False,
      mFinished = False\<rparr>"

definition exampleFinished :: ExecutionBuilder where
  "exampleFinished = exampleExecution\<lparr>mStarted := True, mFinished := True\<rparr>"

definition exampleTimed :: ExecutionBuilder where
  "exampleTimed =
     exampleExecution\<lparr>mCompilation := exampleSingleDevice, mMeasureTiming := True,
       mTiming := \<lparr>timeOnDevice = 7, timeInDriver = UINT64_MAX\<rparr>,
       mStarted := True, mFinished := True\<rparr>"

definition exampleComputed :: ExecutionBuilder where
  "exampleComputed =
     exampleExecution\<lparr>mStarted := True, mFinished := True,
       mTiming := \<lparr>timeOnDevice = 7, timeInDriver = 9\<rparr>,
       mOutputs := [exampleBinding [2, 5], exampleBinding []]\<rparr>"

definition exampleFresh :: ExecutionBuilder where
  "exampleFresh =
     newExecutionBuilder exampleCompilation
       [\<lparr>operandType = 0, operandDimensions = [2, 3]\<rparr>]
       [\<lparr>operandType = 0, operandDimensions = [2, 0]\<rparr>,
        \<lparr>operandType = 1, operandDimensions = []\<rparr>]"

definition exampleMemory :: Memory where
  "exampleMemory = \<lparr>memoryId = 1, hidlName = ''ashmem'', memorySize = 64\<rparr>"

definition exampleTypes :: TypeOracle where
  "exampleTypes =
     \<lparr>isExtensionOperandType = (\<lambda>t. False),
      getExtensionOperandTypeInfo = (\<lambda>t. False),
      validateOperandType = (\<lambda>t info allowUnspecified. ANEURALNETWORKS_NO_ERROR),
      isTensorType = (\<lambda>t. t = 0),
      tensorHasUnspecifiedDimensions =
        (\<lambda>operand. operandDimensions operand = [] \<or> 0 \<in> set (operandDimensions operand)),
      setFromPointer = (\<lambda>operand type buffer l info.
        (ANEURALNETWORKS_NO_ERROR, info\<lparr>argState := POINTER, argBuffer := buffer\<rparr>)),
      setFromMemory = (\<lambda>operand type pool off l info.
        (ANEURALNETWORKS_NO_ERROR, info\<lparr>argState := MEMORY\<rparr>)),
      validateSize = (\<lambda>memory off l. off + l \<le> memorySize memory)\<rparr>"

text \<open>
  A runtime whose conversions map success to success and insufficient size to
  insufficient size, and whose CPU device runs the whole model with output shape 2x5.
\<close>

definition exampleRuntime :: Runtime where
  "exampleRuntime =
     \<lparr>convertResultCodeToErrorStatus =
        (\<lambda>n. case n of
                ANEURALNETWORKS_NO_ERROR \<Rightarrow> NONE
              | ANEURALNETWORKS_OUTPUT_INSUFFICIENT_SIZE \<Rightarrow> OUTPUT_INSUFFICIENT_SIZE
              | ANEURALNETWORKS_BAD_DATA \<Rightarrow> INVALID_ARGUMENT
              | ANEURALNETWORKS_BAD_STATE \<Rightarrow> INVALID_ARGUMENT
              | ANEURALNETWORKS_OTHER c \<Rightarrow> GENERAL_FAILURE),
      convertErrorStatusToResultCode =
        (\<lambda>status. case status of
                NONE \<Rightarrow> ANEURALNETWORKS_NO_ERROR
              | OUTPUT_INSUFFICIENT_SIZE \<Rightarrow> ANEURALNETWORKS_OUTPUT_INSUFFICIENT_SIZE
              | INVALID_ARGUMENT \<Rightarrow> ANEURALNETWORKS_BAD_DATA
              | _ \<Rightarrow> ANEURALNETWORKS_OTHER 4),
      partitioningAllowsFallback = (\<lambda>partitioning. partitioning = 1),
      syncExecRuntime = False,
      callbackStatus = (\<lambda>notified hook. if hook \<noteq> NONE then hook else notified),
      wholeModelCpuPrepare =
        (ANEURALNETWORKS_NO_ERROR,
         Some (ANEURALNETWORKS_NO_ERROR,
               [\<lparr>dimensions = [2, 5], isSufficient = True\<rparr>,
                \<lparr>dimensions = [], isSufficient = True\<rparr>],
               kNoTiming))\<rparr>"

text \<open>
  The shapes a device reports for the two outputs; a step on an accelerator whose
  prepared model answers with the given code and shapes; the replacement executor of a
  step, which the CPU device prepares and which answers with the given code and shapes;
  a plan of several steps with the given script; the shape table the loop starts from.
\<close>

definition exampleShapes :: "u32 list \<Rightarrow> bool \<Rightarrow> OutputShape list" where
  "exampleShapes dims sufficient =
     [\<lparr>dimensions = dims, isSufficient = sufficient\<rparr>, \<lparr>dimensions = [], isSufficient = True\<rparr>]"

definition exampleStep :: "ResultCode \<Rightarrow> OutputShape list \<Rightarrow> StepExecutor" where
  "exampleStep n shapes =
     \<lparr>mExecutionStep = Some [0, 1], mDevice = OtherDevice 1,
      mPreparedModel = Some (n, shapes, \<lparr>timeOnDevice = 7, timeInDriver = 9\<rparr>),
      cpuPrepareModel = (ANEURALNETWORKS_OTHER 4, None)\<rparr>"

definition exampleReplacement :: "ResultCode \<Rightarrow> OutputShape list \<Rightarrow> StepExecutor" where
  "exampleReplacement n shapes =
     \<lparr>mExecutionStep = Some [0, 1], mDevice = OtherDevice 1,
      mPreparedModel = None,
      cpuPrepareModel = (ANEURALNETWORKS_NO_ERROR, Some (n, shapes, kNoTiming))\<rparr>"

definition examplePlan :: "NextAnswer list \<Rightarrow> ExecutionPlan" where
  "examplePlan answers = \<lparr>isSimple = False, isSimpleCpu = False, planScript = answers\<rparr>"

definition exampleTable :: "OutputShape list" where
  "exampleTable = exampleShapes [2, 0] True"

section \<open>Properties of the reconciliation\<close>

lemma isUpdatable_loop_iff:
  "isUpdatable_loop to from i \<longleftrightarrow> (\<forall>k. i \<le> k \<and> k < length to \<longrightarrow> to ! k = from ! k \<or> to ! k = 0)"
proof (induction to "from" i rule: isUpdatable_loop.induct)
  case (1 to "from" i)
  show ?case
  proof (cases "i < length to")
    case False
    then show ?thesis by (auto simp: isUpdatable_loop.simps [of to "from" i])
  next
    case True
    show ?thesis
    proof (cases "to ! i = from ! i \<or> to ! i = 0")
      case ok: True
      have "isUpdatable_loop to from i = isUpdatable_loop to from (Suc i)"
        using True ok by (simp add: isUpdatable_loop.simps [of to "from" i])
      also have "\<dots> \<longleftrightarrow> (\<forall>k. Suc i \<le> k \<and> k < length to \<longrightarrow> to ! k = from ! k \<or> to ! k = 0)"
        using "1.IH" True ok by blast
      also have "\<dots> \<longleftrightarrow> (\<forall>k. i \<le> k \<and> k < length to \<longrightarrow> to ! k = from ! k \<or> to ! k = 0)"
        using ok by (metis Suc_leI le_neq_implies_less Suc_leD)
      finally show ?thesis .
    next
      case bad: False
      have "\<not> isUpdatable_loop to from i"
        using True bad by (simp add: isUpdatable_loop.simps [of to "from" i])
      moreover have "\<not> (\<forall>k. i \<le> k \<and> k < length to \<longrightarrow> to ! k = from ! k \<or> to ! k = 0)"
        using True bad by blast
      ultimately show ?thesis by blast
    qed
  qed
qed

text \<open>
  C1. For dimension vectors \<open>to\<close> and \<open>from\<close> of equal rank, \<open>isUpdatable to from\<close>
  holds if and only if every position \<open>i\<close> with \<open>to[i] \<noteq> 0\<close> has
  \<open>to[i] = from[i]\<close>; and when \<open>to\<close> is empty it holds for every \<open>from\<close>, whatever
  its rank.
\<close>

theorem isUpdatable_monotonic_refinement:
  "(length to = length from \<longrightarrow>
      (isUpdatable to from \<longleftrightarrow> (\<forall>i < length to. to ! i \<noteq> 0 \<longrightarrow> to ! i = from ! i)))
   \<and> isUpdatable [] from'"
proof -
  have "isUpdatable [] from'"
    by (simp add: isUpdatable_def)
  moreover have "isUpdatable to from \<longleftrightarrow> (\<forall>i < length to. to ! i \<noteq> 0 \<longrightarrow> to ! i = from ! i)"
    if "length to = length from"
    using that by (auto simp: isUpdatable_def isUpdatable_loop_iff)
  ultimately show ?thesis by blast
qed

theorem isUpdatable_monotonic_refinement_witness:
  "length [2, 0, 3 :: u32] = length [2, 5, 3 :: u32]
   \<and> isUpdatable [2, 0, 3] [2, 5, 3]
   \<and> \<not> isUpdatable [2, 4, 3] [2, 5, 3]
   \<and> isUpdatable [] [7 :: u32]"
proof -
  have a: "\<forall>i < length [2, 0, 3 :: u32]. [2, 0, 3 :: u32] ! i \<noteq> 0 \<longrightarrow> [2, 0, 3 :: u32] ! i = [2, 5, 3 :: u32] ! i"
    by (simp add: less_Suc_eq nth_Cons')
  have b: "\<not> (\<forall>i < length [2, 4, 3 :: u32]. [2, 4, 3 :: u32] ! i \<noteq> 0 \<longrightarrow> [2, 4, 3 :: u32] ! i = [2, 5, 3 :: u32] ! i)"
    by (simp add: less_Suc_eq nth_Cons')
  show ?thesis
    using a b
      isUpdatable_monotonic_refinement [of "[2, 0, 3]" "[2, 5, 3]" "[7]"]
      isUpdatable_monotonic_refinement [of "[2, 4, 3]" "[2, 5, 3]" "[7]"]
    by simp
qed

lemma updateOutputShapes_check_iff:
  "updateOutputShapes_check outs outputShapes i \<longleftrightarrow>
     (\<forall>k. i \<le> k \<and> k < length outputShapes \<longrightarrow>
        isUpdatable (argDimensions (outs ! k)) (dimensions (outputShapes ! k)))"
proof (induction outs outputShapes i rule: updateOutputShapes_check.induct)
  case (1 outs outputShapes i)
  show ?case
  proof (cases "i < length outputShapes")
    case False
    then show ?thesis by (auto simp: updateOutputShapes_check.simps [of outs outputShapes i])
  next
    case True
    show ?thesis
    proof (cases "isUpdatable (argDimensions (outs ! i)) (dimensions (outputShapes ! i))")
      case ok: True
      have "updateOutputShapes_check outs outputShapes i = updateOutputShapes_check outs outputShapes (Suc i)"
        using True ok by (simp add: updateOutputShapes_check.simps [of outs outputShapes i])
      also have "\<dots> \<longleftrightarrow> (\<forall>k. Suc i \<le> k \<and> k < length outputShapes \<longrightarrow>
          isUpdatable (argDimensions (outs ! k)) (dimensions (outputShapes ! k)))"
        using "1.IH" True ok by blast
      also have "\<dots> \<longleftrightarrow> (\<forall>k. i \<le> k \<and> k < length outputShapes \<longrightarrow>
          isUpdatable (argDimensions (outs ! k)) (dimensions (outputShapes ! k)))"
        using ok by (metis Suc_leI le_neq_implies_less Suc_leD)
      finally show ?thesis .
    next
      case bad: False
      have "\<not> updateOutputShapes_check outs outputShapes i"
        using True bad by (simp add: updateOutputShapes_check.simps [of outs outputShapes i])
      moreover have "\<not> (\<forall>k. i \<le> k \<and> k < length outputShapes \<longrightarrow>
          isUpdatable (argDimensions (outs ! k)) (dimensions (outputShapes ! k)))"
        using True bad by blast
      ultimately show ?thesis by blast
    qed
  qed
qed

lemma updateOutputShapes_store_length:
  "length (updateOutputShapes_store outs outputShapes i) = length outs"
proof (induction outs outputShapes i rule: updateOutputShapes_store.induct)
  case (1 outs outputShapes i)
  then show ?case
    by (cases "i < length outputShapes") (simp_all add: updateOutputShapes_store.simps [of outs outputShapes i])
qed

lemma updateOutputShapes_store_nth:
  "k < length outs \<Longrightarrow>
   updateOutputShapes_store outs outputShapes i ! k =
     (if i \<le> k \<and> k < length outputShapes
      then (outs ! k)\<lparr>argDimensions := dimensions (outputShapes ! k),
                       argIsSufficient := isSufficient (outputShapes ! k)\<rparr>
      else outs ! k)"
proof (induction outs outputShapes i rule: updateOutputShapes_store.induct)
  case (1 outs outputShapes i)
  show ?case
  proof (cases "i < length outputShapes")
    case False
    then show ?thesis by (auto simp: updateOutputShapes_store.simps [of outs outputShapes i])
  next
    case True
    let ?outs' = "outs[i := (outs ! i)\<lparr>argDimensions := dimensions (outputShapes ! i),
                                   argIsSufficient := isSufficient (outputShapes ! i)\<rparr>]"
    have "updateOutputShapes_store outs outputShapes i ! k = updateOutputShapes_store ?outs' outputShapes (Suc i) ! k"
      using True by (simp add: updateOutputShapes_store.simps [of outs outputShapes i])
    also have "\<dots> = (if Suc i \<le> k \<and> k < length outputShapes
      then (?outs' ! k)\<lparr>argDimensions := dimensions (outputShapes ! k),
                       argIsSufficient := isSufficient (outputShapes ! k)\<rparr>
      else ?outs' ! k)"
      using "1.IH" [OF True] "1.prems" by simp
    also have "\<dots> = (if i \<le> k \<and> k < length outputShapes
      then (outs ! k)\<lparr>argDimensions := dimensions (outputShapes ! k),
                       argIsSufficient := isSufficient (outputShapes ! k)\<rparr>
      else outs ! k)"
      using True "1.prems" by (cases "k = i") (auto simp: nth_list_update)
    finally show ?thesis .
  qed
qed

lemma updateOutputShapes_store_map2:
  assumes "length outputShapes = length outs"
  shows "updateOutputShapes_store outs outputShapes 0 = map2 storedShape outs outputShapes"
proof (rule nth_equalityI)
  show "length (updateOutputShapes_store outs outputShapes 0) = length (map2 storedShape outs outputShapes)"
    using assms by (simp add: updateOutputShapes_store_length)
next
  fix k assume "k < length (updateOutputShapes_store outs outputShapes 0)"
  then have k: "k < length outs" by (simp add: updateOutputShapes_store_length)
  then show "updateOutputShapes_store outs outputShapes 0 ! k = map2 storedShape outs outputShapes ! k"
    using assms by (simp add: updateOutputShapes_store_nth storedShape_def)
qed

text \<open>
  C8. \<open>ExecutionBuilder::updateOutputShapes\<close> is atomic. It returns true exactly
  when the proposed vector is empty, or has one shape per stored output and every
  proposed shape passes \<open>isUpdatable\<close> against the stored dimensions. On a false
  return the execution is unchanged; an empty vector succeeds with no change; on a true
  return with a non-empty vector every stored output takes the proposed dimensions and
  sufficiency flag, and nothing else changes.
\<close>

theorem updateOutputShapes_atomic:
  "(\<not> fst (updateOutputShapes outputShapes s) \<longrightarrow> snd (updateOutputShapes outputShapes s) = s)
   \<and> updateOutputShapes [] s = (True, s)
   \<and> (fst (updateOutputShapes outputShapes s) \<longleftrightarrow>
        outputShapes = [] \<or>
        (length outputShapes = length (mOutputs s) \<and>
         (\<forall>i < length outputShapes.
            isUpdatable (argDimensions (mOutputs s ! i)) (dimensions (outputShapes ! i)))))
   \<and> (fst (updateOutputShapes outputShapes s) \<and> outputShapes \<noteq> [] \<longrightarrow>
        snd (updateOutputShapes outputShapes s) =
          s\<lparr>mOutputs := map2 storedShape (mOutputs s) outputShapes\<rparr>)"
proof -
  have a: "\<not> fst (updateOutputShapes outputShapes s) \<longrightarrow> snd (updateOutputShapes outputShapes s) = s"
    by (simp add: updateOutputShapes_def)
  have b: "updateOutputShapes [] s = (True, s)"
    by (simp add: updateOutputShapes_def)
  have c: "fst (updateOutputShapes outputShapes s) \<longleftrightarrow>
        outputShapes = [] \<or>
        (length outputShapes = length (mOutputs s) \<and>
         (\<forall>i < length outputShapes.
            isUpdatable (argDimensions (mOutputs s ! i)) (dimensions (outputShapes ! i))))"
    by (auto simp: updateOutputShapes_def updateOutputShapes_check_iff)
  have d: "fst (updateOutputShapes outputShapes s) \<and> outputShapes \<noteq> [] \<longrightarrow>
        snd (updateOutputShapes outputShapes s) =
          s\<lparr>mOutputs := map2 storedShape (mOutputs s) outputShapes\<rparr>"
    by (auto simp: updateOutputShapes_def updateOutputShapes_store_map2 split: if_splits)
  from a b c d show ?thesis by blast
qed

theorem updateOutputShapes_atomic_witness:
  "\<not> fst (updateOutputShapes [\<lparr>dimensions = [3, 5], isSufficient = True\<rparr>,
                                \<lparr>dimensions = [], isSufficient = True\<rparr>] exampleExecution)
   \<and> snd (updateOutputShapes [\<lparr>dimensions = [3, 5], isSufficient = True\<rparr>,
                                \<lparr>dimensions = [], isSufficient = True\<rparr>] exampleExecution)
       = exampleExecution
   \<and> fst (updateOutputShapes [\<lparr>dimensions = [2, 5], isSufficient = False\<rparr>,
                                \<lparr>dimensions = [], isSufficient = True\<rparr>] exampleExecution)
   \<and> snd (updateOutputShapes [\<lparr>dimensions = [2, 5], isSufficient = False\<rparr>,
                                \<lparr>dimensions = [], isSufficient = True\<rparr>] exampleExecution)
       = exampleExecution\<lparr>mOutputs :=
           [(exampleBinding [2, 0])\<lparr>argDimensions := [2, 5], argIsSufficient := False\<rparr>,
            exampleBinding []]\<rparr>"
  using updateOutputShapes_atomic [of "[\<lparr>dimensions = [3, 5], isSufficient = True\<rparr>,
                                \<lparr>dimensions = [], isSufficient = True\<rparr>]" exampleExecution]
    updateOutputShapes_atomic [of "[\<lparr>dimensions = [2, 5], isSufficient = False\<rparr>,
                                \<lparr>dimensions = [], isSufficient = True\<rparr>]" exampleExecution]
  by (simp add: exampleExecution_def exampleBinding_def storedShape_def isUpdatable_def
        isUpdatable_loop.simps less_Suc_eq all_conj_distrib)


section \<open>Properties of the queries\<close>

text \<open>
  C10. On a finished execution with timing requested, \<open>getDuration\<close> returns
  \<open>1000 * d\<close> for a recorded duration \<open>d\<close> other than \<open>UINT64_MAX\<close>, and
  \<open>UINT64_MAX\<close> itself when \<open>d\<close> is \<open>UINT64_MAX\<close>: the sentinel is not
  multiplied. The product is the \<open>uint64_t\<close> one, modulo \<open>2 ^ 64\<close>.
\<close>

theorem getDuration_conversion:
  assumes "mFinished s" and "mMeasureTiming s"
    and "(durationCode = ANEURALNETWORKS_DURATION_ON_HARDWARE \<and> d = timeOnDevice (mTiming s))
         \<or> (durationCode = ANEURALNETWORKS_DURATION_IN_DRIVER \<and> d = timeInDriver (mTiming s))"
  shows "(d \<noteq> UINT64_MAX \<longrightarrow>
            getDuration durationCode duration s = Some (ANEURALNETWORKS_NO_ERROR, 1000 * d))
         \<and> (d = UINT64_MAX \<longrightarrow>
            getDuration durationCode duration s = Some (ANEURALNETWORKS_NO_ERROR, UINT64_MAX))
         \<and> unat UINT64_MAX = 2 ^ 64 - 1
         \<and> unat (1000 * d) = (1000 * unat d) mod 2 ^ 64"
proof -
  have "unat UINT64_MAX = 2 ^ 64 - 1"
    by (simp add: UINT64_MAX_def unsigned_minus_1_eq_mask mask_eq_exp_minus_1)
  moreover have "unat (1000 * d) = (1000 * unat d) mod 2 ^ 64"
    by (simp add: unat_word_ariths)
  moreover have "d \<noteq> UINT64_MAX \<longrightarrow>
            getDuration durationCode duration s = Some (ANEURALNETWORKS_NO_ERROR, 1000 * d)"
    using assms by (auto simp: getDuration_def kNanoPerMicro_def)
  moreover have "d = UINT64_MAX \<longrightarrow>
            getDuration durationCode duration s = Some (ANEURALNETWORKS_NO_ERROR, UINT64_MAX)"
    using assms by (auto simp: getDuration_def kNanoPerMicro_def)
  ultimately show ?thesis by blast
qed

theorem getDuration_conversion_witness:
  "getDuration ANEURALNETWORKS_DURATION_ON_HARDWARE 0 exampleTimed
     = Some (ANEURALNETWORKS_NO_ERROR, 7000)
   \<and> getDuration ANEURALNETWORKS_DURATION_IN_DRIVER 0 exampleTimed
     = Some (ANEURALNETWORKS_NO_ERROR, UINT64_MAX)"
  using getDuration_conversion [of exampleTimed ANEURALNETWORKS_DURATION_ON_HARDWARE 7 0]
    getDuration_conversion [of exampleTimed ANEURALNETWORKS_DURATION_IN_DRIVER UINT64_MAX 0]
  by (simp add: exampleTimed_def exampleExecution_def UINT64_MAX_def)

lemma index_out_of_range:
  "length xs \<le> unat (index :: u32) \<Longrightarrow> (of_nat (length xs) :: u32) \<le> index"
proof -
  assume a: "length xs \<le> unat index"
  have "unat (of_nat (length xs) :: u32) \<le> length xs"
    by (simp add: unat_of_nat)
  with a show ?thesis
    by (simp add: word_le_nat_alt)
qed

text \<open>
  C9. On a finished execution, \<open>getOutputOperandDimensions\<close> at an index in range
  whose recorded dimension vector is empty fails with \<open>BAD_DATA\<close> and leaves the
  caller's buffer as it was. Nothing in the hypotheses speaks of the status of the
  execution: it holds for a successful one too.
\<close>

theorem getOutputOperandDimensions_scalar:
  assumes "mFinished s" and "unat index < length (mOutputs s)"
    and "argDimensions (mOutputs s ! unat index) = []"
  shows "getOutputOperandDimensions index out s = (ANEURALNETWORKS_BAD_DATA, out)"
proof (cases "index \<ge> (of_nat (length (mOutputs s)) :: u32)")
  case True
  with assms(1) show ?thesis
    by (simp add: getOutputOperandDimensions_def)
next
  case False
  with assms(1,3) show ?thesis
    by (simp add: getOutputOperandDimensions_def Let_def)
qed

theorem getOutputOperandDimensions_scalar_witness:
  "mFinished exampleFinished \<and> unat (1 :: u32) < length (mOutputs exampleFinished)
   \<and> argDimensions (mOutputs exampleFinished ! unat (1 :: u32)) = []
   \<and> getOutputOperandDimensions 1 [9, 9, 9] exampleFinished
       = (ANEURALNETWORKS_BAD_DATA, [9, 9, 9])"
  using getOutputOperandDimensions_scalar [of exampleFinished 1 "[9, 9, 9]"]
  by (simp add: exampleFinished_def exampleExecution_def exampleBinding_def)

text \<open>
  C6. \<open>setMeasureTiming\<close> succeeds exactly when the execution has not started and was
  compiled for exactly one explicitly chosen device. Without exactly one explicit device
  it fails with \<open>BAD_DATA\<close>, started or not: the device check comes first. With one
  explicit device and a started execution it fails with \<open>BAD_STATE\<close>. A failing call
  leaves the execution unchanged; a successful one sets the flag.
\<close>

theorem setMeasureTiming_outcomes:
  "(fst (setMeasureTiming measureFlag s) = ANEURALNETWORKS_NO_ERROR \<longleftrightarrow>
      \<not> mStarted s \<and> mExplicitDeviceList (mCompilation s)
      \<and> length (mDevices (mCompilation s)) = 1)
   \<and> (\<not> (mExplicitDeviceList (mCompilation s) \<and> length (mDevices (mCompilation s)) = 1) \<longrightarrow>
        setMeasureTiming measureFlag s = (ANEURALNETWORKS_BAD_DATA, s))
   \<and> (mExplicitDeviceList (mCompilation s) \<and> length (mDevices (mCompilation s)) = 1
        \<and> mStarted s \<longrightarrow>
        setMeasureTiming measureFlag s = (ANEURALNETWORKS_BAD_STATE, s))
   \<and> (mExplicitDeviceList (mCompilation s) \<and> length (mDevices (mCompilation s)) = 1
        \<and> \<not> mStarted s \<longrightarrow>
        setMeasureTiming measureFlag s
          = (ANEURALNETWORKS_NO_ERROR, s\<lparr>mMeasureTiming := measureFlag\<rparr>))"
proof -
  let ?single = "mExplicitDeviceList (mCompilation s) \<and> length (mDevices (mCompilation s)) = 1"
  have bad: "setMeasureTiming measureFlag s = (ANEURALNETWORKS_BAD_DATA, s)" if "\<not> ?single"
    using that by (auto simp: setMeasureTiming_def)
  have late: "setMeasureTiming measureFlag s = (ANEURALNETWORKS_BAD_STATE, s)"
    if "?single" and "mStarted s"
    using that by (simp add: setMeasureTiming_def)
  have ok: "setMeasureTiming measureFlag s
              = (ANEURALNETWORKS_NO_ERROR, s\<lparr>mMeasureTiming := measureFlag\<rparr>)"
    if "?single" and "\<not> mStarted s"
    using that by (simp add: setMeasureTiming_def)
  show ?thesis
  proof (cases ?single)
    case False
    with bad show ?thesis by auto
  next
    case True
    with late ok show ?thesis by (cases "mStarted s") auto
  qed
qed


theorem setMeasureTiming_outcomes_witness:
  "setMeasureTiming True (exampleExecution\<lparr>mCompilation := exampleSingleDevice\<rparr>)
     = (ANEURALNETWORKS_NO_ERROR,
        exampleExecution\<lparr>mCompilation := exampleSingleDevice, mMeasureTiming := True\<rparr>)
   \<and> setMeasureTiming False exampleTimed = (ANEURALNETWORKS_BAD_STATE, exampleTimed)
   \<and> setMeasureTiming True exampleExecution = (ANEURALNETWORKS_BAD_DATA, exampleExecution)
   \<and> setMeasureTiming True exampleFinished = (ANEURALNETWORKS_BAD_DATA, exampleFinished)"
  using setMeasureTiming_outcomes [of True "exampleExecution\<lparr>mCompilation := exampleSingleDevice\<rparr>"]
    setMeasureTiming_outcomes [of False exampleTimed]
    setMeasureTiming_outcomes [of True exampleExecution]
    setMeasureTiming_outcomes [of True exampleFinished]
  by (simp add: exampleFinished_def exampleTimed_def exampleExecution_def
        exampleCompilation_def exampleSingleDevice_def)

section \<open>Properties of the bind calls and of compute\<close>

lemmas example_defs =
  exampleExecution_def exampleBinding_def exampleCompilation_def exampleRuntime_def
  exampleStep_def exampleReplacement_def examplePlan_def exampleShapes_def exampleTable_def

lemmas run_defs =
  asyncStartComputePartitioned_def initializeOutputShapes_def startCompute_def
  startComputeOnCpuFallback_def cpuFallbackPartial_def cpuFallbackFull_def
  StepExecutor_updateOutputShapes_def updateOutputShapes_direct.simps
  updateOutputShapes_mapped.simps
  isUpdatable_def isUpdatable_loop.simps isCpu_def getCpuDevice_def

text \<open>
  C5, as amended. A bind call on an execution that has not started, with a slot index
  greater than or equal to the number of declared inputs (outputs), fails with
  \<open>BAD_DATA\<close>, the code of every other data error, and leaves the execution
  unchanged; \<open>getOutputOperandDimensions\<close> and \<open>getOutputOperandRank\<close> on a
  finished execution fail with \<open>BAD_DATA\<close> on an out-of-range output index and write
  nothing.
\<close>

theorem out_of_range_index_is_BAD_DATA:
  "(\<not> mStarted s \<and> length (mInputs s) \<le> unat index \<longrightarrow>
      setInput tc index type buffer byteLength s = (ANEURALNETWORKS_BAD_DATA, s)
      \<and> setInputFromMemory tc index type memory byteOffset byteLength s
          = (ANEURALNETWORKS_BAD_DATA, s))
   \<and> (\<not> mStarted s \<and> length (mOutputs s) \<le> unat index \<longrightarrow>
      setOutput tc index type buffer byteLength s = (ANEURALNETWORKS_BAD_DATA, s)
      \<and> setOutputFromMemory tc index type memory byteOffset byteLength s
          = (ANEURALNETWORKS_BAD_DATA, s))
   \<and> (mFinished s \<and> length (mOutputs s) \<le> unat index \<longrightarrow>
      getOutputOperandDimensions index out s = (ANEURALNETWORKS_BAD_DATA, out)
      \<and> getOutputOperandRank index rank s = (ANEURALNETWORKS_BAD_DATA, rank))"
  using index_out_of_range [of "mInputs s" index] index_out_of_range [of "mOutputs s" index]
  by (simp add: setInput_def setInputFromMemory_def setOutput_def setOutputFromMemory_def
        getOutputOperandDimensions_def getOutputOperandRank_def)

theorem out_of_range_index_is_BAD_DATA_witness:
  "setInput exampleTypes 1 None (Some 4096) 24 exampleExecution
     = (ANEURALNETWORKS_BAD_DATA, exampleExecution)
   \<and> setOutputFromMemory exampleTypes 2 None exampleMemory 0 24 exampleExecution
     = (ANEURALNETWORKS_BAD_DATA, exampleExecution)
   \<and> getOutputOperandRank 2 0 exampleFinished = (ANEURALNETWORKS_BAD_DATA, 0)
   \<and> getOutputOperandDimensions 7 [9, 9] exampleFinished = (ANEURALNETWORKS_BAD_DATA, [9, 9])"
  using out_of_range_index_is_BAD_DATA [of exampleExecution 1 exampleTypes None "Some 4096" 24]
    out_of_range_index_is_BAD_DATA [of exampleExecution 2 exampleTypes None _ 24 exampleMemory 0]
    out_of_range_index_is_BAD_DATA [of exampleFinished 2 _ _ _ _ _ _ _ 0]
    out_of_range_index_is_BAD_DATA [of exampleFinished 7 _ _ _ _ _ _ "[9, 9]"]
  by (simp add: exampleFinished_def exampleExecution_def)

text \<open>
  C5 as stated fails: with slot index 1 on an execution with one input,
  \<open>setInput\<close> returns \<open>BAD_DATA\<close>, the code it also returns for an in-range index
  with a byte length above \<open>0xFFFFFFFF\<close>; the two queries return \<open>BAD_DATA\<close> on
  output index 2 of two outputs.
\<close>

theorem bad_index_signal_counterexample:
  "\<not> mStarted exampleExecution
   \<and> length (mInputs exampleExecution) \<le> unat (1 :: u32)
   \<and> fst (setInput exampleTypes 1 None (Some 4096) 24 exampleExecution)
       = ANEURALNETWORKS_BAD_DATA
   \<and> unat (0 :: u32) < length (mInputs exampleExecution)
   \<and> fst (setInput exampleTypes 0 None (Some 4096) (2 ^ 32) exampleExecution)
       = ANEURALNETWORKS_BAD_DATA
   \<and> mFinished exampleFinished
   \<and> length (mOutputs exampleFinished) \<le> unat (2 :: u32)
   \<and> fst (getOutputOperandDimensions 2 [9, 9] exampleFinished) = ANEURALNETWORKS_BAD_DATA
   \<and> fst (getOutputOperandRank 2 0 exampleFinished) = ANEURALNETWORKS_BAD_DATA"
  by (simp add: setInput_def getOutputOperandDimensions_def getOutputOperandRank_def
        checkDimensionInfo_def exampleTypes_def exampleFinished_def exampleExecution_def)

lemma updateOutputShapes_mStarted:
  "mStarted (snd (updateOutputShapes outputShapes s)) = mStarted s"
  by (simp add: updateOutputShapes_def)

lemma finish_mStarted:
  "finish outputShapes s = Some (status, s') \<Longrightarrow> mStarted s' = mStarted s"
  using updateOutputShapes_mStarted [of outputShapes "s\<lparr>mFinished := True\<rparr>"]
  by (auto simp: finish_def split: if_splits prod.splits)

lemma deliver_mStarted:
  "deliver rt events s callback = Some (s', callback') \<Longrightarrow> mStarted s' = mStarted s"
proof (induction events arbitrary: s callback)
  case Nil
  then show ?case by simp
next
  case (Cons e events)
  show ?case
  proof (cases e)
    case (ReportTiming timing)
    with Cons.prems have "deliver rt events (reportTiming timing s) callback = Some (s', callback')"
      by simp
    from Cons.IH [OF this] show ?thesis by (simp add: reportTiming_def)
  next
    case CpuFallbackPartial
    with Cons show ?thesis by simp
  next
    case CpuFallbackFull
    with Cons show ?thesis by simp
  next
    case (Notify status outputShapes timing)
    with Cons.prems obtain status' s1 where
      f: "finish outputShapes s = Some (status', s1)" and
      d: "deliver rt events s1
            (Some \<lparr>getStatus = callbackStatus rt status status',
                   getOutputShapes = outputShapes, getTiming = timing\<rparr>) = Some (s', callback')"
      by (auto split: option.splits)
    from Cons.IH [OF d] finish_mStarted [OF f] show ?thesis by simp
  next
    case CheckFailure
    with Cons.prems show ?thesis by simp
  qed
qed

lemma compute_starts:
  assumes "compute rt plan mode s0 = Some (rc, s)"
    and "\<not> list_ex (\<lambda>p. argState p = UNSPECIFIED) (mInputs s0)"
    and "\<not> list_ex (\<lambda>p. argState p = UNSPECIFIED) (mOutputs s0)"
  shows "mStarted s"
proof (cases "mStarted s0")
  case True
  with assms show ?thesis by (simp add: compute_def)
next
  case False
  with assms show ?thesis
    by (auto simp: compute_def computeThread_def split: if_splits option.splits prod.splits
          dest: deliver_mStarted)
qed

lemma started_rejects:
  assumes "mStarted s"
  shows "compute rt plan mode s = Some (ANEURALNETWORKS_BAD_STATE, s)"
    and "setInput tc index type buffer byteLength s = (ANEURALNETWORKS_BAD_STATE, s)"
    and "setInputFromMemory tc index type memory byteOffset byteLength s = (ANEURALNETWORKS_BAD_STATE, s)"
    and "setOutput tc index type buffer byteLength s = (ANEURALNETWORKS_BAD_STATE, s)"
    and "setOutputFromMemory tc index type memory byteOffset byteLength s = (ANEURALNETWORKS_BAD_STATE, s)"
  using assms
  by (simp_all add: compute_def setInput_def setInputFromMemory_def setOutput_def setOutputFromMemory_def)

lemma computeThread_mStarted:
  "computeThread rt plan s = Some (s', callback) \<Longrightarrow> mStarted s' = mStarted s"
  by (auto simp: computeThread_def dest: deliver_mStarted)

text \<open>
  C4, as amended. An invocation of \<open>compute\<close> on an execution whose slots are all
  bound starts the execution, and the step loop never resets the flag. On a started
  execution a further \<open>compute\<close> and each of the four bind calls return
  \<open>BAD_STATE\<close> and leave the execution, its bindings included, exactly as it was.
\<close>

theorem started_execution_rejects_calls:
  "(compute rt plan mode s0 = Some (rc, s)
      \<and> \<not> list_ex (\<lambda>p. argState p = UNSPECIFIED) (mInputs s0)
      \<and> \<not> list_ex (\<lambda>p. argState p = UNSPECIFIED) (mOutputs s0) \<longrightarrow> mStarted s)
   \<and> (computeThread rt plan s = Some (s1, callback) \<and> mStarted s \<longrightarrow> mStarted s1)
   \<and> (mStarted s \<longrightarrow>
        compute rt' plan' mode' s = Some (ANEURALNETWORKS_BAD_STATE, s)
        \<and> setInput tc index type buffer byteLength s = (ANEURALNETWORKS_BAD_STATE, s)
        \<and> setInputFromMemory tc index type memory byteOffset byteLength s
            = (ANEURALNETWORKS_BAD_STATE, s)
        \<and> setOutput tc index type buffer byteLength s = (ANEURALNETWORKS_BAD_STATE, s)
        \<and> setOutputFromMemory tc index type memory byteOffset byteLength s
            = (ANEURALNETWORKS_BAD_STATE, s))"
proof -
  have "mStarted s"
    if "compute rt plan mode s0 = Some (rc, s)"
      and "\<not> list_ex (\<lambda>p. argState p = UNSPECIFIED) (mInputs s0)"
      and "\<not> list_ex (\<lambda>p. argState p = UNSPECIFIED) (mOutputs s0)"
    using compute_starts [OF that] .
  moreover have "mStarted s1"
    if "computeThread rt plan s = Some (s1, callback)" and "mStarted s"
    using computeThread_mStarted [OF that(1)] that(2) by simp
  moreover have "compute rt' plan' mode' s = Some (ANEURALNETWORKS_BAD_STATE, s)
            \<and> setInput tc index type buffer byteLength s = (ANEURALNETWORKS_BAD_STATE, s)
            \<and> setInputFromMemory tc index type memory byteOffset byteLength s
                = (ANEURALNETWORKS_BAD_STATE, s)
            \<and> setOutput tc index type buffer byteLength s = (ANEURALNETWORKS_BAD_STATE, s)
            \<and> setOutputFromMemory tc index type memory byteOffset byteLength s
                = (ANEURALNETWORKS_BAD_STATE, s)"
    if "mStarted s"
    using started_rejects [OF that] by simp
  ultimately show ?thesis by blast
qed

theorem started_execution_rejects_calls_witness:
  "compute exampleRuntime
     (examplePlan
        [(ANEURALNETWORKS_NO_ERROR,
          Some (exampleStep ANEURALNETWORKS_NO_ERROR (exampleShapes [2, 5] True),
                (ANEURALNETWORKS_NO_ERROR,
                 exampleReplacement ANEURALNETWORKS_NO_ERROR (exampleShapes [2, 5] True))))])
     Synchronous exampleExecution
     = Some (ANEURALNETWORKS_NO_ERROR, exampleComputed)
   \<and> mStarted exampleComputed
   \<and> compute exampleRuntime (examplePlan []) Synchronous exampleComputed
       = Some (ANEURALNETWORKS_BAD_STATE, exampleComputed)
   \<and> setInput exampleTypes 0 None (Some 4096) 24 exampleComputed
       = (ANEURALNETWORKS_BAD_STATE, exampleComputed)
   \<and> setInputFromMemory exampleTypes 0 None exampleMemory 0 24 exampleComputed
       = (ANEURALNETWORKS_BAD_STATE, exampleComputed)
   \<and> setOutput exampleTypes 0 None (Some 4096) 24 exampleComputed
       = (ANEURALNETWORKS_BAD_STATE, exampleComputed)
   \<and> setOutputFromMemory exampleTypes 0 None exampleMemory 0 24 exampleComputed
       = (ANEURALNETWORKS_BAD_STATE, exampleComputed)"
proof -
  let ?plan = "examplePlan
        [(ANEURALNETWORKS_NO_ERROR,
          Some (exampleStep ANEURALNETWORKS_NO_ERROR (exampleShapes [2, 5] True),
                (ANEURALNETWORKS_NO_ERROR,
                 exampleReplacement ANEURALNETWORKS_NO_ERROR (exampleShapes [2, 5] True))))]"
  have run: "compute exampleRuntime ?plan Synchronous exampleExecution
     = Some (ANEURALNETWORKS_NO_ERROR, exampleComputed)"
    by (simp add: compute_def computeThread_def example_defs run_defs exampleComputed_def
          finish_def updateOutputShapes_def updateOutputShapes_check.simps
          updateOutputShapes_store.simps reportTiming_def)
  have bound: "\<not> list_ex (\<lambda>p. argState p = UNSPECIFIED) (mInputs exampleExecution)
      \<and> \<not> list_ex (\<lambda>p. argState p = UNSPECIFIED) (mOutputs exampleExecution)"
    by (simp add: example_defs)
  from started_execution_rejects_calls
         [of exampleRuntime ?plan Synchronous exampleExecution ANEURALNETWORKS_NO_ERROR
            exampleComputed _ _ exampleRuntime "examplePlan []" Synchronous exampleTypes 0 None
            "Some 4096" 24 exampleMemory 0]
       bound run
  show ?thesis by simp
qed

text \<open>
  C4 as stated fails for an invocation of \<open>compute\<close> that is rejected: on a
  fresh execution, whose slots are unbound, \<open>compute\<close> returns \<open>BAD_DATA\<close> and
  does not start the execution, and the \<open>setInput\<close> made after it succeeds and
  changes the binding.
\<close>

theorem compute_rejected_counterexample:
  "compute exampleRuntime (examplePlan []) Synchronous exampleFresh
     = Some (ANEURALNETWORKS_BAD_DATA, exampleFresh)
   \<and> setInput exampleTypes 0 None (Some 4096) 24 exampleFresh
     = (ANEURALNETWORKS_NO_ERROR,
        exampleFresh\<lparr>mInputs :=
          [unspecifiedArgument\<lparr>argState := POINTER, argBuffer := Some 4096\<rparr>]\<rparr>)"
  by (simp add: compute_def setInput_def checkDimensionInfo_def exampleFresh_def
        newExecutionBuilder_def unspecifiedArgument_def exampleTypes_def)

section \<open>Properties of the step loop\<close>

lemma startCompute_Started:
  assumes "startCompute rt executor = (events, Started stepCallback)"
  shows "events = [ReportTiming (getTiming stepCallback)]"
  using assms
  by (auto simp: startCompute_def split: option.splits prod.splits if_splits)

lemma startComputeOnCpuFallback_Started:
  assumes "startComputeOnCpuFallback rt executor = (events, Started fallbackCallback)"
  shows "events = [ReportTiming (getTiming fallbackCallback)]"
  using assms
  by (auto simp: startComputeOnCpuFallback_def split: prod.splits if_splits
        dest: startCompute_Started)

lemma startCompute_no_fallback:
  assumes "startCompute rt executor = (events, r)"
  shows "count_list events CpuFallbackPartial = 0 \<and> count_list events CpuFallbackFull = 0"
  using assms
  by (auto simp: startCompute_def split: option.splits prod.splits if_splits)

lemma startComputeOnCpuFallback_no_fallback:
  assumes "startComputeOnCpuFallback rt executor = (events, r)"
  shows "count_list events CpuFallbackPartial = 0 \<and> count_list events CpuFallbackFull = 0"
  using assms
  by (auto simp: startComputeOnCpuFallback_def split: prod.splits if_splits
        dest: startCompute_no_fallback)

lemma cpuFallbackFull_counts:
  "count_list (cpuFallbackFull rt) CpuFallbackPartial = 0
   \<and> count_list (cpuFallbackFull rt) CpuFallbackFull = 1"
proof -
  obtain events r where
    e: "startComputeOnCpuFallback rt
          \<lparr>mExecutionStep = None, mDevice = getCpuDevice, mPreparedModel = None,
           cpuPrepareModel = wholeModelCpuPrepare rt\<rparr> = (events, r)"
    by (cases "startComputeOnCpuFallback rt
          \<lparr>mExecutionStep = None, mDevice = getCpuDevice, mPreparedModel = None,
           cpuPrepareModel = wholeModelCpuPrepare rt\<rparr>") blast
  from startComputeOnCpuFallback_no_fallback [OF e] e show ?thesis
    by (cases r) (simp_all add: cpuFallbackFull_def)
qed

lemma StepExecutor_updateOutputShapes_step:
  "mExecutionStep executor' = mExecutionStep executor \<Longrightarrow>
   StepExecutor_updateOutputShapes executor' from to = StepExecutor_updateOutputShapes executor from to"
  by (simp add: StepExecutor_updateOutputShapes_def)

text \<open>
  C7. When a step ran and the reconciliation of its shapes into the running table
  fails, the status the loop classifies is \<open>GENERAL_FAILURE\<close>, whatever status the
  step reported: with fallback allowed the loop enters partial fallback, otherwise it
  notifies \<open>GENERAL_FAILURE\<close> with no shapes; the step's timing is not recorded. Two
  steps that report the same shapes and timing with different statuses have the same
  outcome.
\<close>

theorem reconciliation_failure_downgrades:
  assumes "startCompute rt executor = (events, Started stepCallback)"
    and "\<not> fst (StepExecutor_updateOutputShapes executor (getOutputShapes stepCallback) outputShapes)"
  shows "reconciledStatus executor stepCallback outputShapes = GENERAL_FAILURE
       \<and> stepLoop rt plan allowFallback
            ((ANEURALNETWORKS_NO_ERROR, Some (executor, fallback)) # rest) outputShapes timing
          = events @
            (if allowFallback
             then (case cpuFallbackPartial rt plan fallback
                          (snd (StepExecutor_updateOutputShapes executor
                                  (getOutputShapes stepCallback) outputShapes)) of
                     (events', continue, outputShapes'') \<Rightarrow>
                       if continue
                       then events' @ stepLoop rt plan allowFallback rest outputShapes'' timing
                       else events')
             else [Notify GENERAL_FAILURE [] kNoTiming])
       \<and> (\<forall>executor' stepCallback'.
            startCompute rt executor' = (events, Started stepCallback')
              \<and> mExecutionStep executor' = mExecutionStep executor
              \<and> getOutputShapes stepCallback' = getOutputShapes stepCallback \<longrightarrow>
            stepLoop rt plan allowFallback
                ((ANEURALNETWORKS_NO_ERROR, Some (executor', fallback)) # rest) outputShapes timing
              = stepLoop rt plan allowFallback
                  ((ANEURALNETWORKS_NO_ERROR, Some (executor, fallback)) # rest) outputShapes
                  timing)"
proof -
  obtain outputShapes' where
    u: "StepExecutor_updateOutputShapes executor (getOutputShapes stepCallback) outputShapes
          = (False, outputShapes')"
    using assms(2)
    by (cases "StepExecutor_updateOutputShapes executor (getOutputShapes stepCallback) outputShapes")
       simp
  have a: "reconciledStatus executor stepCallback outputShapes = GENERAL_FAILURE"
    using assms(2) by (simp add: reconciledStatus_def)
  have b: "stepLoop rt plan allowFallback
            ((ANEURALNETWORKS_NO_ERROR, Some (executor, fallback)) # rest) outputShapes timing
          = events @
            (if allowFallback
             then (case cpuFallbackPartial rt plan fallback
                          (snd (StepExecutor_updateOutputShapes executor
                                  (getOutputShapes stepCallback) outputShapes)) of
                     (events', continue, outputShapes'') \<Rightarrow>
                       if continue
                       then events' @ stepLoop rt plan allowFallback rest outputShapes'' timing
                       else events')
             else [Notify GENERAL_FAILURE [] kNoTiming])"
    using assms(1) u by (simp split: prod.splits)
  have c: "stepLoop rt plan allowFallback
                ((ANEURALNETWORKS_NO_ERROR, Some (executor', fallback)) # rest) outputShapes timing
              = stepLoop rt plan allowFallback
                  ((ANEURALNETWORKS_NO_ERROR, Some (executor, fallback)) # rest) outputShapes
                  timing"
    if "startCompute rt executor' = (events, Started stepCallback')"
      and "mExecutionStep executor' = mExecutionStep executor"
      and "getOutputShapes stepCallback' = getOutputShapes stepCallback"
    for executor' stepCallback'
    using that assms(1) u StepExecutor_updateOutputShapes_step [OF that(2)]
    by (simp split: prod.splits)
  from a b c show ?thesis by blast
qed

theorem reconciliation_failure_downgrades_witness:
  "startCompute exampleRuntime
     (exampleStep ANEURALNETWORKS_OUTPUT_INSUFFICIENT_SIZE (exampleShapes [3, 5] True))
     = ([ReportTiming \<lparr>timeOnDevice = 7, timeInDriver = 9\<rparr>],
        Started \<lparr>getStatus = OUTPUT_INSUFFICIENT_SIZE, getOutputShapes = exampleShapes [3, 5] True,
                 getTiming = \<lparr>timeOnDevice = 7, timeInDriver = 9\<rparr>\<rparr>)
   \<and> StepExecutor_updateOutputShapes
        (exampleStep ANEURALNETWORKS_OUTPUT_INSUFFICIENT_SIZE (exampleShapes [3, 5] True))
        (exampleShapes [3, 5] True) exampleTable
     = (False, exampleTable)
   \<and> stepLoop exampleRuntime (examplePlan []) False
        [(ANEURALNETWORKS_NO_ERROR,
          Some (exampleStep ANEURALNETWORKS_OUTPUT_INSUFFICIENT_SIZE (exampleShapes [3, 5] True),
                (ANEURALNETWORKS_NO_ERROR,
                 exampleReplacement ANEURALNETWORKS_NO_ERROR (exampleShapes [2, 5] True))))]
        exampleTable kNoTiming
     = [ReportTiming \<lparr>timeOnDevice = 7, timeInDriver = 9\<rparr>,
        Notify GENERAL_FAILURE [] kNoTiming]
   \<and> stepLoop exampleRuntime (examplePlan []) False
        [(ANEURALNETWORKS_NO_ERROR,
          Some (exampleStep ANEURALNETWORKS_NO_ERROR (exampleShapes [3, 5] True),
                (ANEURALNETWORKS_NO_ERROR,
                 exampleReplacement ANEURALNETWORKS_NO_ERROR (exampleShapes [2, 5] True))))]
        exampleTable kNoTiming
     = [ReportTiming \<lparr>timeOnDevice = 7, timeInDriver = 9\<rparr>,
        Notify GENERAL_FAILURE [] kNoTiming]"
proof -
  let ?step = "exampleStep ANEURALNETWORKS_OUTPUT_INSUFFICIENT_SIZE (exampleShapes [3, 5] True)"
  let ?cb = "\<lparr>getStatus = OUTPUT_INSUFFICIENT_SIZE, getOutputShapes = exampleShapes [3, 5] True,
                 getTiming = \<lparr>timeOnDevice = 7, timeInDriver = 9\<rparr>\<rparr>"
  let ?step' = "exampleStep ANEURALNETWORKS_NO_ERROR (exampleShapes [3, 5] True)"
  let ?cb' = "\<lparr>getStatus = NONE, getOutputShapes = exampleShapes [3, 5] True,
                 getTiming = \<lparr>timeOnDevice = 7, timeInDriver = 9\<rparr>\<rparr>"
  have s: "startCompute exampleRuntime ?step
     = ([ReportTiming \<lparr>timeOnDevice = 7, timeInDriver = 9\<rparr>], Started ?cb)"
    by (simp add: example_defs startCompute_def)
  have s': "startCompute exampleRuntime ?step'
     = ([ReportTiming \<lparr>timeOnDevice = 7, timeInDriver = 9\<rparr>], Started ?cb')"
    by (simp add: example_defs startCompute_def)
  have u: "StepExecutor_updateOutputShapes ?step (getOutputShapes ?cb) exampleTable
     = (False, exampleTable)"
    by (simp add: example_defs run_defs)
  then have nu: "\<not> fst (StepExecutor_updateOutputShapes ?step (getOutputShapes ?cb) exampleTable)"
    by simp
  have m: "mExecutionStep ?step' = mExecutionStep ?step"
    by (simp add: exampleStep_def)
  from reconciliation_failure_downgrades [OF s nu, of "examplePlan []" False _ "[]" kNoTiming]
    s s' u m
  show ?thesis by auto
qed


text \<open>
  C2, as amended. When a step ran and its status after reconciliation is
  \<open>OUTPUT_INSUFFICIENT_SIZE\<close> (the step reported it and its shapes reconciled), the
  loop stops there, for any remaining plan and with fallback allowed or not: after the
  step's timing report the only event is the notification of that status with the
  reconciled shape table. The same holds for the replacement step inside
  \<open>cpuFallbackPartial\<close>: no full-model fallback follows, the status is notified with
  the reconciled table, the call returns false and the loop that called it ends.
\<close>

theorem insufficient_size_surfaces:
  "(startCompute rt executor = (events, Started stepCallback)
      \<and> reconciledStatus executor stepCallback outputShapes = OUTPUT_INSUFFICIENT_SIZE \<longrightarrow>
    stepLoop rt plan allowFallback
        ((ANEURALNETWORKS_NO_ERROR, Some (executor, fallback)) # rest) outputShapes timing
      = [ReportTiming (getTiming stepCallback),
         Notify OUTPUT_INSUFFICIENT_SIZE
           (snd (StepExecutor_updateOutputShapes executor (getOutputShapes stepCallback)
                   outputShapes))
           kNoTiming])
   \<and> (fst fallback = ANEURALNETWORKS_NO_ERROR \<and> \<not> isCpu (snd fallback)
      \<and> startComputeOnCpuFallback rt (snd fallback) = (events, Started stepCallback)
      \<and> reconciledStatus (snd fallback) stepCallback outputShapes
          = OUTPUT_INSUFFICIENT_SIZE \<longrightarrow>
    cpuFallbackPartial rt plan fallback outputShapes
      = ([CpuFallbackPartial, ReportTiming (getTiming stepCallback),
          Notify OUTPUT_INSUFFICIENT_SIZE
            (snd (StepExecutor_updateOutputShapes (snd fallback)
                    (getOutputShapes stepCallback) outputShapes))
            kNoTiming],
         False,
         snd (StepExecutor_updateOutputShapes (snd fallback) (getOutputShapes stepCallback)
                outputShapes))
    \<and> (\<forall>failed events0 m. startCompute rt failed = (events0, StartError m) \<longrightarrow>
          stepLoop rt plan True
              ((ANEURALNETWORKS_NO_ERROR, Some (failed, fallback)) # rest) outputShapes timing
            = events0 @
              [CpuFallbackPartial, ReportTiming (getTiming stepCallback),
               Notify OUTPUT_INSUFFICIENT_SIZE
                 (snd (StepExecutor_updateOutputShapes (snd fallback)
                         (getOutputShapes stepCallback) outputShapes))
                 kNoTiming]))"
proof -
  have a: "stepLoop rt plan allowFallback
        ((ANEURALNETWORKS_NO_ERROR, Some (executor, fallback)) # rest) outputShapes timing
      = [ReportTiming (getTiming stepCallback),
         Notify OUTPUT_INSUFFICIENT_SIZE
           (snd (StepExecutor_updateOutputShapes executor (getOutputShapes stepCallback)
                   outputShapes))
           kNoTiming]"
    if "startCompute rt executor = (events, Started stepCallback)"
      and "reconciledStatus executor stepCallback outputShapes = OUTPUT_INSUFFICIENT_SIZE"
    using that startCompute_Started [OF that(1)]
    by (cases "StepExecutor_updateOutputShapes executor (getOutputShapes stepCallback) outputShapes")
       (auto simp: reconciledStatus_def split: if_splits)
  have b: "cpuFallbackPartial rt plan fallback outputShapes
      = ([CpuFallbackPartial, ReportTiming (getTiming stepCallback),
          Notify OUTPUT_INSUFFICIENT_SIZE
            (snd (StepExecutor_updateOutputShapes (snd fallback)
                    (getOutputShapes stepCallback) outputShapes))
            kNoTiming],
         False,
         snd (StepExecutor_updateOutputShapes (snd fallback) (getOutputShapes stepCallback)
                outputShapes))"
    if "fst fallback = ANEURALNETWORKS_NO_ERROR" and "\<not> isCpu (snd fallback)"
      and "startComputeOnCpuFallback rt (snd fallback) = (events, Started stepCallback)"
      and "reconciledStatus (snd fallback) stepCallback outputShapes = OUTPUT_INSUFFICIENT_SIZE"
    using that startComputeOnCpuFallback_Started [OF that(3)]
    by (cases fallback;
        cases "StepExecutor_updateOutputShapes (snd fallback) (getOutputShapes stepCallback) outputShapes")
       (auto simp: cpuFallbackPartial_def reconciledStatus_def split: if_splits)
  have c: "stepLoop rt plan True
              ((ANEURALNETWORKS_NO_ERROR, Some (failed, fallback)) # rest) outputShapes timing
            = events0 @ events'"
    if "cpuFallbackPartial rt plan fallback outputShapes = (events', False, outputShapes')"
      and "startCompute rt failed = (events0, StartError m)"
    for failed events0 m events' outputShapes'
    using that by simp
  from a b c show ?thesis by blast
qed

theorem insufficient_size_surfaces_witness:
  "stepLoop exampleRuntime (examplePlan []) True
     [(ANEURALNETWORKS_NO_ERROR,
       Some (exampleStep ANEURALNETWORKS_OUTPUT_INSUFFICIENT_SIZE (exampleShapes [2, 5] False),
             (ANEURALNETWORKS_NO_ERROR,
              exampleReplacement ANEURALNETWORKS_NO_ERROR (exampleShapes [2, 5] True))))]
     exampleTable kNoTiming
     = [ReportTiming \<lparr>timeOnDevice = 7, timeInDriver = 9\<rparr>,
        Notify OUTPUT_INSUFFICIENT_SIZE (exampleShapes [2, 5] False) kNoTiming]
   \<and> cpuFallbackPartial exampleRuntime (examplePlan [])
        (ANEURALNETWORKS_NO_ERROR,
         exampleReplacement ANEURALNETWORKS_OUTPUT_INSUFFICIENT_SIZE (exampleShapes [2, 5] False))
        exampleTable
     = ([CpuFallbackPartial, ReportTiming kNoTiming,
         Notify OUTPUT_INSUFFICIENT_SIZE (exampleShapes [2, 5] False) kNoTiming],
        False, exampleShapes [2, 5] False)"
proof -
  let ?cb = "\<lparr>getStatus = OUTPUT_INSUFFICIENT_SIZE,
              getOutputShapes = exampleShapes [2, 5] False,
              getTiming = \<lparr>timeOnDevice = 7, timeInDriver = 9\<rparr>\<rparr>"
  let ?step = "exampleStep ANEURALNETWORKS_OUTPUT_INSUFFICIENT_SIZE (exampleShapes [2, 5] False)"
  have s1: "startCompute exampleRuntime ?step
              = ([ReportTiming \<lparr>timeOnDevice = 7, timeInDriver = 9\<rparr>], Started ?cb)"
    by (simp add: example_defs startCompute_def)
  have u1: "StepExecutor_updateOutputShapes ?step (getOutputShapes ?cb) exampleTable
              = (True, exampleShapes [2, 5] False)"
    by (simp add: example_defs run_defs)
  let ?cb2 = "\<lparr>getStatus = OUTPUT_INSUFFICIENT_SIZE,
               getOutputShapes = exampleShapes [2, 5] False,
               getTiming = kNoTiming\<rparr>"
  let ?repl = "exampleReplacement ANEURALNETWORKS_OUTPUT_INSUFFICIENT_SIZE (exampleShapes [2, 5] False)"
  have s2: "startComputeOnCpuFallback exampleRuntime ?repl = ([ReportTiming kNoTiming], Started ?cb2)"
    by (simp add: example_defs startCompute_def startComputeOnCpuFallback_def)
  have u2: "StepExecutor_updateOutputShapes ?repl (getOutputShapes ?cb2) exampleTable
              = (True, exampleShapes [2, 5] False)"
    by (simp add: example_defs run_defs)
  have c2: "\<not> isCpu ?repl"
    by (simp add: example_defs run_defs)
  from insufficient_size_surfaces
         [of exampleRuntime ?step "[ReportTiming \<lparr>timeOnDevice = 7, timeInDriver = 9\<rparr>]" ?cb
             exampleTable "examplePlan []" True
             "(ANEURALNETWORKS_NO_ERROR,
              exampleReplacement ANEURALNETWORKS_NO_ERROR (exampleShapes [2, 5] True))" "[]" kNoTiming]
       s1 u1
  have a: "stepLoop exampleRuntime (examplePlan []) True
     [(ANEURALNETWORKS_NO_ERROR,
       Some (?step, (ANEURALNETWORKS_NO_ERROR,
              exampleReplacement ANEURALNETWORKS_NO_ERROR (exampleShapes [2, 5] True))))]
     exampleTable kNoTiming
     = [ReportTiming \<lparr>timeOnDevice = 7, timeInDriver = 9\<rparr>,
        Notify OUTPUT_INSUFFICIENT_SIZE (exampleShapes [2, 5] False) kNoTiming]"
    by (simp add: reconciledStatus_def)
  from insufficient_size_surfaces
         [of exampleRuntime _ "[ReportTiming kNoTiming]" ?cb2
             exampleTable "examplePlan []" _
             "(ANEURALNETWORKS_NO_ERROR, ?repl)"]
       s2 u2 c2
  have b: "cpuFallbackPartial exampleRuntime (examplePlan []) (ANEURALNETWORKS_NO_ERROR, ?repl)
        exampleTable
     = ([CpuFallbackPartial, ReportTiming kNoTiming,
         Notify OUTPUT_INSUFFICIENT_SIZE (exampleShapes [2, 5] False) kNoTiming],
        False, exampleShapes [2, 5] False)"
    by (simp add: reconciledStatus_def)
  from a b show ?thesis by blast
qed

text \<open>
  C2 as stated fails. A step reports \<open>OUTPUT_INSUFFICIENT_SIZE\<close> with a first
  dimension 3 where the table has 2: reconciliation fails and the status becomes
  \<open>GENERAL_FAILURE\<close>. With fallback allowed the loop enters partial fallback, the
  step runs on the CPU and the callback is notified of success; with fallback disallowed
  the callback is notified of \<open>GENERAL_FAILURE\<close> with no shapes.
\<close>

theorem insufficient_size_downgraded_counterexample:
  "snd (startCompute exampleRuntime
          (exampleStep ANEURALNETWORKS_OUTPUT_INSUFFICIENT_SIZE (exampleShapes [3, 5] False)))
     = Started \<lparr>getStatus = OUTPUT_INSUFFICIENT_SIZE,
                getOutputShapes = exampleShapes [3, 5] False,
                getTiming = \<lparr>timeOnDevice = 7, timeInDriver = 9\<rparr>\<rparr>
   \<and> asyncStartComputePartitioned exampleRuntime exampleExecution
        (examplePlan
           [(ANEURALNETWORKS_NO_ERROR,
             Some (exampleStep ANEURALNETWORKS_OUTPUT_INSUFFICIENT_SIZE (exampleShapes [3, 5] False),
                   (ANEURALNETWORKS_NO_ERROR,
                    exampleReplacement ANEURALNETWORKS_NO_ERROR (exampleShapes [2, 5] True))))])
        True
     = [ReportTiming \<lparr>timeOnDevice = 7, timeInDriver = 9\<rparr>,
        CpuFallbackPartial,
        ReportTiming kNoTiming,
        Notify NONE (exampleShapes [2, 5] True) kNoTiming]
   \<and> asyncStartComputePartitioned exampleRuntime exampleExecution
        (examplePlan
           [(ANEURALNETWORKS_NO_ERROR,
             Some (exampleStep ANEURALNETWORKS_OUTPUT_INSUFFICIENT_SIZE (exampleShapes [3, 5] False),
                   (ANEURALNETWORKS_NO_ERROR,
                    exampleReplacement ANEURALNETWORKS_NO_ERROR (exampleShapes [2, 5] True))))])
        False
     = [ReportTiming \<lparr>timeOnDevice = 7, timeInDriver = 9\<rparr>,
        Notify GENERAL_FAILURE [] kNoTiming]"
  by (simp add: example_defs run_defs)

lemma cpuFallbackPartial_no_replacement:
  assumes "fst fallback \<noteq> ANEURALNETWORKS_NO_ERROR \<or> isCpu (snd fallback)"
  shows "cpuFallbackPartial rt plan fallback outputShapes
           = (CpuFallbackPartial # cpuFallbackFull rt, False, outputShapes)"
  using assms by (cases fallback) (auto simp: cpuFallbackPartial_def)

lemma cpuFallbackPartial_no_dispatch:
  assumes "fst fallback = ANEURALNETWORKS_NO_ERROR" and "\<not> isCpu (snd fallback)"
    and "startComputeOnCpuFallback rt (snd fallback) = (evs, StartError m)"
  shows "cpuFallbackPartial rt plan fallback outputShapes
           = (CpuFallbackPartial # evs @ cpuFallbackFull rt, False, outputShapes)"
  using assms by (cases fallback) (simp add: cpuFallbackPartial_def)

lemma cpuFallbackPartial_aborted:
  assumes "fst fallback = ANEURALNETWORKS_NO_ERROR" and "\<not> isCpu (snd fallback)"
    and "startComputeOnCpuFallback rt (snd fallback) = (evs, StartAborted)"
  shows "cpuFallbackPartial rt plan fallback outputShapes
           = (CpuFallbackPartial # evs, False, outputShapes)"
  using assms by (cases fallback) (simp add: cpuFallbackPartial_def)

lemma cpuFallbackPartial_ran:
  assumes "fst fallback = ANEURALNETWORKS_NO_ERROR" and "\<not> isCpu (snd fallback)"
    and "startComputeOnCpuFallback rt (snd fallback) = (evs, Started cb)"
  shows "cpuFallbackPartial rt plan fallback outputShapes
           = (let status = reconciledStatus (snd fallback) cb outputShapes;
                  outputShapes' = snd (StepExecutor_updateOutputShapes (snd fallback)
                                         (getOutputShapes cb) outputShapes)
              in if status = NONE
                 then ([CpuFallbackPartial, ReportTiming (getTiming cb)], True, outputShapes')
                 else if isSimple plan \<or> status = OUTPUT_INSUFFICIENT_SIZE
                 then ([CpuFallbackPartial, ReportTiming (getTiming cb),
                        Notify status outputShapes' kNoTiming], False, outputShapes')
                 else (CpuFallbackPartial # ReportTiming (getTiming cb) # cpuFallbackFull rt,
                       False, outputShapes'))"
  using assms startComputeOnCpuFallback_Started [OF assms(3)]
  by (cases fallback;
      cases "StepExecutor_updateOutputShapes (snd fallback) (getOutputShapes cb) outputShapes")
     (simp add: cpuFallbackPartial_def reconciledStatus_def Let_def)

lemma stepLoop_dispatch_failure:
  assumes "startCompute rt failed = (events0, StartError m)"
  shows "stepLoop rt plan True
           ((ANEURALNETWORKS_NO_ERROR, Some (failed, fallback)) # rest) outputShapes timing
         = events0 @
           (case cpuFallbackPartial rt plan fallback outputShapes of
              (events', continue, outputShapes') \<Rightarrow>
                if continue then events' @ stepLoop rt plan True rest outputShapes' timing
                else events')"
  using assms by (simp split: prod.splits)

lemma stepLoop_status_failure:
  assumes "startCompute rt failed = (events0, Started cb0)"
    and "reconciledStatus failed cb0 table \<noteq> NONE"
    and "reconciledStatus failed cb0 table \<noteq> OUTPUT_INSUFFICIENT_SIZE"
  shows "stepLoop rt plan True
           ((ANEURALNETWORKS_NO_ERROR, Some (failed, fallback)) # rest) table timing
         = events0 @
           (case cpuFallbackPartial rt plan fallback
                   (snd (StepExecutor_updateOutputShapes failed (getOutputShapes cb0) table)) of
              (events', continue, outputShapes') \<Rightarrow>
                if continue then events' @ stepLoop rt plan True rest outputShapes' timing
                else events')"
  using assms
  by (cases "StepExecutor_updateOutputShapes failed (getOutputShapes cb0) table")
     (auto simp: reconciledStatus_def split: prod.splits)

lemma startComputeOnCpuFallback_quiet:
  assumes "startComputeOnCpuFallback rt executor = (evs, r)"
  shows "count_list evs CpuFallbackPartial = 0" and "count_list evs CpuFallbackFull = 0"
  using startComputeOnCpuFallback_no_fallback [OF assms] by simp_all

text \<open>
  C3, as amended. A partial-fallback attempt fails unless a replacement executor that
  is not on the CPU device ran and its status after reconciliation is success;
  \<open>cpuFallbackPartial\<close> returns false exactly then. Full-model fallback is taken,
  exactly once, when the plan gives no replacement executor, the replacement is on the
  CPU device already, the replacement cannot be dispatched, or the replacement ran and
  its status after reconciliation is a failure other than
  \<open>OUTPUT_INSUFFICIENT_SIZE\<close> on a plan that is not simple. When the replacement ran
  and failed on a simple plan, or failed with \<open>OUTPUT_INSUFFICIENT_SIZE\<close> on any
  plan, the status is notified directly and there is no full-model fallback. In every
  failing case the loop that entered partial fallback ends with the events of that one
  attempt, whatever the plan has left: partial fallback is entered once and not again.
\<close>

theorem partial_fallback_single_retry:
  "(fst fallback \<noteq> ANEURALNETWORKS_NO_ERROR \<or> isCpu (snd fallback) \<longrightarrow>
      cpuFallbackPartial rt plan fallback outputShapes
        = (CpuFallbackPartial # cpuFallbackFull rt, False, outputShapes))
   \<and> (fst fallback = ANEURALNETWORKS_NO_ERROR \<and> \<not> isCpu (snd fallback)
        \<and> startComputeOnCpuFallback rt (snd fallback) = (evs, StartError m) \<longrightarrow>
      cpuFallbackPartial rt plan fallback outputShapes
        = (CpuFallbackPartial # evs @ cpuFallbackFull rt, False, outputShapes)
      \<and> count_list evs CpuFallbackPartial = 0 \<and> count_list evs CpuFallbackFull = 0)
   \<and> (fst fallback = ANEURALNETWORKS_NO_ERROR \<and> \<not> isCpu (snd fallback)
        \<and> startComputeOnCpuFallback rt (snd fallback) = (evs, Started cb)
        \<and> reconciledStatus (snd fallback) cb outputShapes \<noteq> NONE \<longrightarrow>
      (if isSimple plan
          \<or> reconciledStatus (snd fallback) cb outputShapes = OUTPUT_INSUFFICIENT_SIZE
       then cpuFallbackPartial rt plan fallback outputShapes
              = ([CpuFallbackPartial, ReportTiming (getTiming cb),
                  Notify (reconciledStatus (snd fallback) cb outputShapes)
                    (snd (StepExecutor_updateOutputShapes (snd fallback)
                            (getOutputShapes cb) outputShapes))
                    kNoTiming],
                 False,
                 snd (StepExecutor_updateOutputShapes (snd fallback)
                        (getOutputShapes cb) outputShapes))
       else cpuFallbackPartial rt plan fallback outputShapes
              = (CpuFallbackPartial # ReportTiming (getTiming cb) # cpuFallbackFull rt,
                 False,
                 snd (StepExecutor_updateOutputShapes (snd fallback)
                        (getOutputShapes cb) outputShapes))))
   \<and> count_list (cpuFallbackFull rt) CpuFallbackFull = 1
   \<and> count_list (cpuFallbackFull rt) CpuFallbackPartial = 0
   \<and> (fst (snd (cpuFallbackPartial rt plan fallback outputShapes)) \<longleftrightarrow>
        fst fallback = ANEURALNETWORKS_NO_ERROR \<and> \<not> isCpu (snd fallback)
        \<and> (\<exists>evs' cb'. startComputeOnCpuFallback rt (snd fallback) = (evs', Started cb')
              \<and> reconciledStatus (snd fallback) cb' outputShapes = NONE))
   \<and> (\<not> (fst fallback = ANEURALNETWORKS_NO_ERROR \<and> \<not> isCpu (snd fallback)
           \<and> (\<exists>evs' cb'. startComputeOnCpuFallback rt (snd fallback) = (evs', Started cb')
                 \<and> reconciledStatus (snd fallback) cb' outputShapes = NONE)) \<longrightarrow>
        count_list (fst (cpuFallbackPartial rt plan fallback outputShapes)) CpuFallbackPartial = 1
        \<and> count_list (fst (cpuFallbackPartial rt plan fallback outputShapes)) CpuFallbackFull \<le> 1
        \<and> (\<forall>failed events0 n. startCompute rt failed = (events0, StartError n) \<longrightarrow>
              stepLoop rt plan True
                  ((ANEURALNETWORKS_NO_ERROR, Some (failed, fallback)) # rest) outputShapes timing
                = events0 @ fst (cpuFallbackPartial rt plan fallback outputShapes)
              \<and> count_list
                    (stepLoop rt plan True
                       ((ANEURALNETWORKS_NO_ERROR, Some (failed, fallback)) # rest)
                       outputShapes timing)
                    CpuFallbackPartial = 1)
        \<and> (\<forall>failed events0 cb0 table.
              startCompute rt failed = (events0, Started cb0)
                \<and> snd (StepExecutor_updateOutputShapes failed (getOutputShapes cb0) table)
                    = outputShapes
                \<and> reconciledStatus failed cb0 table \<noteq> NONE
                \<and> reconciledStatus failed cb0 table \<noteq> OUTPUT_INSUFFICIENT_SIZE \<longrightarrow>
              stepLoop rt plan True
                  ((ANEURALNETWORKS_NO_ERROR, Some (failed, fallback)) # rest) table timing
                = events0 @ fst (cpuFallbackPartial rt plan fallback outputShapes)
              \<and> count_list
                    (stepLoop rt plan True
                       ((ANEURALNETWORKS_NO_ERROR, Some (failed, fallback)) # rest)
                       table timing)
                    CpuFallbackPartial = 1))"
proof -
  let ?success = "fst fallback = ANEURALNETWORKS_NO_ERROR \<and> \<not> isCpu (snd fallback)
        \<and> (\<exists>evs' cb'. startComputeOnCpuFallback rt (snd fallback) = (evs', Started cb')
              \<and> reconciledStatus (snd fallback) cb' outputShapes = NONE)"
  let ?result = "cpuFallbackPartial rt plan fallback outputShapes"
  note full = cpuFallbackFull_counts [of rt]
  have c1: "fst fallback \<noteq> ANEURALNETWORKS_NO_ERROR \<or> isCpu (snd fallback) \<longrightarrow>
      ?result = (CpuFallbackPartial # cpuFallbackFull rt, False, outputShapes)"
    using cpuFallbackPartial_no_replacement by blast
  have c2: "fst fallback = ANEURALNETWORKS_NO_ERROR \<and> \<not> isCpu (snd fallback)
        \<and> startComputeOnCpuFallback rt (snd fallback) = (evs, StartError m) \<longrightarrow>
      ?result = (CpuFallbackPartial # evs @ cpuFallbackFull rt, False, outputShapes)
      \<and> count_list evs CpuFallbackPartial = 0 \<and> count_list evs CpuFallbackFull = 0"
    using cpuFallbackPartial_no_dispatch startComputeOnCpuFallback_quiet by blast
  have c3: "fst fallback = ANEURALNETWORKS_NO_ERROR \<and> \<not> isCpu (snd fallback)
        \<and> startComputeOnCpuFallback rt (snd fallback) = (evs, Started cb)
        \<and> reconciledStatus (snd fallback) cb outputShapes \<noteq> NONE \<longrightarrow>
      (if isSimple plan
          \<or> reconciledStatus (snd fallback) cb outputShapes = OUTPUT_INSUFFICIENT_SIZE
       then ?result
              = ([CpuFallbackPartial, ReportTiming (getTiming cb),
                  Notify (reconciledStatus (snd fallback) cb outputShapes)
                    (snd (StepExecutor_updateOutputShapes (snd fallback)
                            (getOutputShapes cb) outputShapes))
                    kNoTiming],
                 False,
                 snd (StepExecutor_updateOutputShapes (snd fallback)
                        (getOutputShapes cb) outputShapes))
       else ?result
              = (CpuFallbackPartial # ReportTiming (getTiming cb) # cpuFallbackFull rt,
                 False,
                 snd (StepExecutor_updateOutputShapes (snd fallback)
                        (getOutputShapes cb) outputShapes)))"
  proof (intro impI)
    assume h: "fst fallback = ANEURALNETWORKS_NO_ERROR \<and> \<not> isCpu (snd fallback)
        \<and> startComputeOnCpuFallback rt (snd fallback) = (evs, Started cb)
        \<and> reconciledStatus (snd fallback) cb outputShapes \<noteq> NONE"
    then have "startComputeOnCpuFallback rt (snd fallback) = (evs, Started cb)" by simp
    from cpuFallbackPartial_ran [OF _ _ this, of plan outputShapes] h
    show "if isSimple plan
          \<or> reconciledStatus (snd fallback) cb outputShapes = OUTPUT_INSUFFICIENT_SIZE
       then ?result
              = ([CpuFallbackPartial, ReportTiming (getTiming cb),
                  Notify (reconciledStatus (snd fallback) cb outputShapes)
                    (snd (StepExecutor_updateOutputShapes (snd fallback)
                            (getOutputShapes cb) outputShapes))
                    kNoTiming],
                 False,
                 snd (StepExecutor_updateOutputShapes (snd fallback)
                        (getOutputShapes cb) outputShapes))
       else ?result
              = (CpuFallbackPartial # ReportTiming (getTiming cb) # cpuFallbackFull rt,
                 False,
                 snd (StepExecutor_updateOutputShapes (snd fallback)
                        (getOutputShapes cb) outputShapes))"
      by (simp add: Let_def)
  qed
  obtain evs0 r where run: "startComputeOnCpuFallback rt (snd fallback) = (evs0, r)"
    by (cases "startComputeOnCpuFallback rt (snd fallback)") blast
  note quiet = startComputeOnCpuFallback_quiet [OF run]
  have flag: "fst (snd ?result) \<longleftrightarrow> ?success"
  proof (cases "fst fallback \<noteq> ANEURALNETWORKS_NO_ERROR \<or> isCpu (snd fallback)")
    case True
    with cpuFallbackPartial_no_replacement [OF True, of rt plan outputShapes] show ?thesis
      by auto
  next
    case False
    then have ok: "fst fallback = ANEURALNETWORKS_NO_ERROR" "\<not> isCpu (snd fallback)" by simp_all
    show ?thesis
    proof (cases r)
      case StartAborted
      with cpuFallbackPartial_aborted [OF ok, of rt evs0 plan outputShapes] run show ?thesis
        by simp
    next
      case (StartError n)
      with cpuFallbackPartial_no_dispatch [OF ok, of rt evs0 n plan outputShapes] run show ?thesis
        by simp
    next
      case (Started cb1)
      with cpuFallbackPartial_ran [OF ok, of rt evs0 cb1 plan outputShapes] run ok show ?thesis
        by (auto simp: Let_def)
    qed
  qed
  have counts: "count_list (fst ?result) CpuFallbackPartial = 1
        \<and> count_list (fst ?result) CpuFallbackFull \<le> 1"
    if "\<not> ?success"
  proof (cases "fst fallback \<noteq> ANEURALNETWORKS_NO_ERROR \<or> isCpu (snd fallback)")
    case True
    with cpuFallbackPartial_no_replacement [OF True, of rt plan outputShapes] full show ?thesis
      by simp
  next
    case False
    then have ok: "fst fallback = ANEURALNETWORKS_NO_ERROR" "\<not> isCpu (snd fallback)" by simp_all
    show ?thesis
    proof (cases r)
      case StartAborted
      with cpuFallbackPartial_aborted [OF ok, of rt evs0 plan outputShapes] run quiet show ?thesis
        by simp
    next
      case (StartError n)
      with cpuFallbackPartial_no_dispatch [OF ok, of rt evs0 n plan outputShapes] run quiet full
      show ?thesis by simp
    next
      case (Started cb1)
      with cpuFallbackPartial_ran [OF ok, of rt evs0 cb1 plan outputShapes] run ok that full
      show ?thesis by (auto simp: Let_def)
    qed
  qed
  have stop: "\<not> fst (snd ?result)" if "\<not> ?success"
    using flag that by blast
  have loop1: "stepLoop rt plan True
                  ((ANEURALNETWORKS_NO_ERROR, Some (failed, fallback)) # rest) outputShapes timing
                = events0 @ fst ?result
              \<and> count_list
                    (stepLoop rt plan True
                       ((ANEURALNETWORKS_NO_ERROR, Some (failed, fallback)) # rest)
                       outputShapes timing)
                    CpuFallbackPartial = 1"
    if "\<not> ?success" and "startCompute rt failed = (events0, StartError n)"
    for failed events0 n
  proof -
    have eq: "stepLoop rt plan True
                  ((ANEURALNETWORKS_NO_ERROR, Some (failed, fallback)) # rest) outputShapes timing
                = events0 @ fst ?result"
      using stepLoop_dispatch_failure [OF that(2), of plan fallback rest outputShapes timing]
        stop [OF that(1)]
      by (cases ?result) simp
    with counts [OF that(1)] startCompute_no_fallback [OF that(2)] show ?thesis by simp
  qed
  have loop2: "stepLoop rt plan True
                  ((ANEURALNETWORKS_NO_ERROR, Some (failed, fallback)) # rest) table timing
                = events0 @ fst ?result
              \<and> count_list
                    (stepLoop rt plan True
                       ((ANEURALNETWORKS_NO_ERROR, Some (failed, fallback)) # rest)
                       table timing)
                    CpuFallbackPartial = 1"
    if "\<not> ?success"
      and "startCompute rt failed = (events0, Started cb0)
                \<and> snd (StepExecutor_updateOutputShapes failed (getOutputShapes cb0) table)
                    = outputShapes
                \<and> reconciledStatus failed cb0 table \<noteq> NONE
                \<and> reconciledStatus failed cb0 table \<noteq> OUTPUT_INSUFFICIENT_SIZE"
    for failed events0 cb0 table
  proof -
    from that(2) have st: "startCompute rt failed = (events0, Started cb0)" by simp
    have eq: "stepLoop rt plan True
                  ((ANEURALNETWORKS_NO_ERROR, Some (failed, fallback)) # rest) table timing
                = events0 @ fst ?result"
      using stepLoop_status_failure [OF st, of table plan fallback rest timing] that(2)
        stop [OF that(1)]
      by (cases ?result) simp
    with counts [OF that(1)] startCompute_no_fallback [OF st] show ?thesis by simp
  qed
  from c1 c2 c3 full flag counts loop1 loop2 show ?thesis by blast
qed


theorem partial_fallback_single_retry_witness:
  "cpuFallbackPartial exampleRuntime (examplePlan [])
       (ANEURALNETWORKS_OTHER 4,
        exampleReplacement ANEURALNETWORKS_NO_ERROR (exampleShapes [2, 5] True))
       exampleTable
     = ([CpuFallbackPartial, CpuFallbackFull, ReportTiming kNoTiming,
         Notify NONE (exampleShapes [2, 5] True) kNoTiming],
        False, exampleTable)
   \<and> stepLoop exampleRuntime (examplePlan []) True
        [(ANEURALNETWORKS_NO_ERROR,
          Some (exampleStep (ANEURALNETWORKS_OTHER 4) [],
                (ANEURALNETWORKS_OTHER 4,
                 exampleReplacement ANEURALNETWORKS_NO_ERROR (exampleShapes [2, 5] True)))),
         (ANEURALNETWORKS_NO_ERROR,
          Some (exampleStep (ANEURALNETWORKS_OTHER 4) [],
                (ANEURALNETWORKS_OTHER 4,
                 exampleReplacement ANEURALNETWORKS_NO_ERROR (exampleShapes [2, 5] True))))]
        exampleTable kNoTiming
     = [ReportTiming \<lparr>timeOnDevice = 7, timeInDriver = 9\<rparr>,
        CpuFallbackPartial, CpuFallbackFull, ReportTiming kNoTiming,
        Notify NONE (exampleShapes [2, 5] True) kNoTiming]
   \<and> count_list
        (stepLoop exampleRuntime (examplePlan []) True
           [(ANEURALNETWORKS_NO_ERROR,
             Some (exampleStep (ANEURALNETWORKS_OTHER 4) [],
                   (ANEURALNETWORKS_OTHER 4,
                    exampleReplacement ANEURALNETWORKS_NO_ERROR (exampleShapes [2, 5] True)))),
            (ANEURALNETWORKS_NO_ERROR,
             Some (exampleStep (ANEURALNETWORKS_OTHER 4) [],
                   (ANEURALNETWORKS_OTHER 4,
                    exampleReplacement ANEURALNETWORKS_NO_ERROR (exampleShapes [2, 5] True))))]
           exampleTable kNoTiming)
        CpuFallbackPartial = 1
   \<and> cpuFallbackPartial exampleRuntime (examplePlan [])
       (ANEURALNETWORKS_NO_ERROR,
        exampleReplacement ANEURALNETWORKS_NO_ERROR (exampleShapes [3, 5] True))
       exampleTable
     = ([CpuFallbackPartial, ReportTiming kNoTiming, CpuFallbackFull, ReportTiming kNoTiming,
         Notify NONE (exampleShapes [2, 5] True) kNoTiming],
        False, exampleTable)
   \<and> cpuFallbackPartial exampleRuntime
       ((examplePlan [])\<lparr>isSimple := True\<rparr>)
       (ANEURALNETWORKS_NO_ERROR,
        exampleReplacement ANEURALNETWORKS_NO_ERROR (exampleShapes [3, 5] True))
       exampleTable
     = ([CpuFallbackPartial, ReportTiming kNoTiming,
         Notify GENERAL_FAILURE exampleTable kNoTiming],
        False, exampleTable)"
proof -
  let ?good = "exampleReplacement ANEURALNETWORKS_NO_ERROR (exampleShapes [2, 5] True)"
  let ?bad = "exampleReplacement ANEURALNETWORKS_NO_ERROR (exampleShapes [3, 5] True)"
  let ?failed = "exampleStep (ANEURALNETWORKS_OTHER 4) []"
  let ?cb = "\<lparr>getStatus = NONE, getOutputShapes = exampleShapes [3, 5] True,
              getTiming = kNoTiming\<rparr>"
  let ?rest = "[(ANEURALNETWORKS_NO_ERROR,
                 Some (?failed, (ANEURALNETWORKS_OTHER 4, ?good)))]"
  have full: "cpuFallbackFull exampleRuntime
        = [CpuFallbackFull, ReportTiming kNoTiming,
           Notify NONE (exampleShapes [2, 5] True) kNoTiming]"
    by (simp add: example_defs run_defs)
  have failed: "startCompute exampleRuntime ?failed
        = ([ReportTiming \<lparr>timeOnDevice = 7, timeInDriver = 9\<rparr>],
           StartError (ANEURALNETWORKS_OTHER 4))"
    by (simp add: example_defs startCompute_def)
  have notCpu: "\<not> isCpu ?bad"
    by (simp add: example_defs run_defs)
  have started: "startComputeOnCpuFallback exampleRuntime ?bad
        = ([ReportTiming kNoTiming], Started ?cb)"
    by (simp add: example_defs startCompute_def startComputeOnCpuFallback_def)
  have update: "StepExecutor_updateOutputShapes ?bad (exampleShapes [3, 5] True) exampleTable
        = (False, exampleTable)"
    by (simp add: example_defs run_defs)
  then have status: "reconciledStatus ?bad ?cb exampleTable = GENERAL_FAILURE"
    by (simp add: reconciledStatus_def)
  note none = partial_fallback_single_retry
    [where fallback = "(ANEURALNETWORKS_OTHER 4, ?good)" and rt = exampleRuntime
       and plan = "examplePlan []" and outputShapes = exampleTable and rest = ?rest
       and timing = kNoTiming]
  note ran = partial_fallback_single_retry
    [where fallback = "(ANEURALNETWORKS_NO_ERROR, ?bad)" and rt = exampleRuntime
       and plan = "examplePlan []" and outputShapes = exampleTable
       and evs = "[ReportTiming kNoTiming]" and cb = ?cb]
  note simple = partial_fallback_single_retry
    [where fallback = "(ANEURALNETWORKS_NO_ERROR, ?bad)" and rt = exampleRuntime
       and plan = "(examplePlan [])\<lparr>isSimple := True\<rparr>" and outputShapes = exampleTable
       and evs = "[ReportTiming kNoTiming]" and cb = ?cb]
  have a: "cpuFallbackPartial exampleRuntime (examplePlan [])
             (ANEURALNETWORKS_OTHER 4, ?good) exampleTable
           = ([CpuFallbackPartial, CpuFallbackFull, ReportTiming kNoTiming,
               Notify NONE (exampleShapes [2, 5] True) kNoTiming], False, exampleTable)"
    using none full by simp
  have b: "stepLoop exampleRuntime (examplePlan []) True
             ((ANEURALNETWORKS_NO_ERROR, Some (?failed, (ANEURALNETWORKS_OTHER 4, ?good))) # ?rest)
             exampleTable kNoTiming
           = [ReportTiming \<lparr>timeOnDevice = 7, timeInDriver = 9\<rparr>,
              CpuFallbackPartial, CpuFallbackFull, ReportTiming kNoTiming,
              Notify NONE (exampleShapes [2, 5] True) kNoTiming]
         \<and> count_list
              (stepLoop exampleRuntime (examplePlan []) True
                 ((ANEURALNETWORKS_NO_ERROR, Some (?failed, (ANEURALNETWORKS_OTHER 4, ?good))) # ?rest)
                 exampleTable kNoTiming)
              CpuFallbackPartial = 1"
    using none failed a by simp
  have c: "cpuFallbackPartial exampleRuntime (examplePlan [])
             (ANEURALNETWORKS_NO_ERROR, ?bad) exampleTable
           = ([CpuFallbackPartial, ReportTiming kNoTiming, CpuFallbackFull,
               ReportTiming kNoTiming, Notify NONE (exampleShapes [2, 5] True) kNoTiming],
              False, exampleTable)"
    using ran notCpu started status update full by (simp add: examplePlan_def)
  have d: "cpuFallbackPartial exampleRuntime ((examplePlan [])\<lparr>isSimple := True\<rparr>)
             (ANEURALNETWORKS_NO_ERROR, ?bad) exampleTable
           = ([CpuFallbackPartial, ReportTiming kNoTiming,
               Notify GENERAL_FAILURE exampleTable kNoTiming], False, exampleTable)"
    using simple notCpu started status update by (simp add: examplePlan_def)
  from a b c d show ?thesis by simp
qed

text \<open>
  C3 as stated fails: on a plan that is not simple, a replacement step that ends
  with \<open>OUTPUT_INSUFFICIENT_SIZE\<close> is not escalated to full-model fallback; the
  status is notified directly.
\<close>

theorem partial_fallback_escalation_counterexample:
  "\<not> isSimple (examplePlan [])
   \<and> cpuFallbackPartial exampleRuntime (examplePlan [])
        (ANEURALNETWORKS_NO_ERROR,
         exampleReplacement ANEURALNETWORKS_OUTPUT_INSUFFICIENT_SIZE (exampleShapes [2, 5] False))
        exampleTable
     = ([CpuFallbackPartial, ReportTiming kNoTiming,
         Notify OUTPUT_INSUFFICIENT_SIZE (exampleShapes [2, 5] False) kNoTiming],
        False, exampleShapes [2, 5] False)
   \<and> stepLoop exampleRuntime (examplePlan []) True
        [(ANEURALNETWORKS_NO_ERROR,
          Some (exampleStep (ANEURALNETWORKS_OTHER 4) [],
                (ANEURALNETWORKS_NO_ERROR,
                 exampleReplacement ANEURALNETWORKS_OUTPUT_INSUFFICIENT_SIZE
                   (exampleShapes [2, 5] False))))]
        exampleTable kNoTiming
     = [ReportTiming \<lparr>timeOnDevice = 7, timeInDriver = 9\<rparr>,
        CpuFallbackPartial, ReportTiming kNoTiming,
        Notify OUTPUT_INSUFFICIENT_SIZE (exampleShapes [2, 5] False) kNoTiming]"
  by (simp add: example_defs run_defs)


end
